theory Spec2Isabelle
  imports Main "HOL-Library.AList"
begin

section \<open>Errors\<close>

text \<open>
  Every \<^verbatim>\<open>throw\<close> of \<^verbatim>\<open>PluginService.ts\<close> is a value of this type, named after the
  taxonomy of the specification:
  \<^item> \<open>ManifestNotFound\<close>: \<^verbatim>\<open>Error('Could not find manifest')\<close>;
  \<^item> \<open>ManifestDecodeError\<close>: the \<^verbatim>\<open>SyntaxError\<close> of \<^verbatim>\<open>JSON.parse\<close>, or a manifest object
    that \<^verbatim>\<open>manifestFromObject\<close> rejects;
  \<^item> \<open>MissingPluginId\<close>: \<^verbatim>\<open>Error('Could not load plugin: ID is not set')\<close>;
  \<^item> \<open>DuplicateId\<close>: \<^verbatim>\<open>Error('There is already a plugin with this ID: ...')\<close>;
  \<^item> \<open>ExtractionFailure\<close>: \<^verbatim>\<open>Error('Missing manifest file at: ...')\<close>;
  \<^item> \<open>VersionTooOld\<close>: the error of \<^verbatim>\<open>runPlugin\<close>;
  \<^item> \<open>PluginNotFound\<close>: \<^verbatim>\<open>Error('Plugin not found: ...')\<close>;
  \<^item> \<open>TypeError\<close>: a property access on \<^verbatim>\<open>null\<close> or \<^verbatim>\<open>undefined\<close>, or (the module is
    strict-mode code) a property assignment on a primitive value;
  \<^item> \<open>CollaboratorError\<close>: an exception of an external collaborator (file-system driver,
    archive extraction, hashing, version comparison, sandbox runner).
\<close>

datatype error =
    ManifestNotFound
  | ManifestDecodeError
  | MissingPluginId
  | DuplicateId
  | ExtractionFailure
  | VersionTooOld
  | PluginNotFound
  | TypeError
  | CollaboratorError

text \<open>Sequencing of fallible steps: the first error aborts, as an exception does.\<close>

definition bind_err :: "error + 'a \<Rightarrow> ('a \<Rightarrow> error + 'b) \<Rightarrow> error + 'b" where
  "bind_err r f = (case r of Inl e \<Rightarrow> Inl e | Inr v \<Rightarrow> f v)"

section \<open>Strings\<close>

text \<open>
  A JavaScript string is modelled as a \<^typ>\<open>string\<close>; a \<^typ>\<open>char\<close> stands for one
  code unit of the Latin-1 range. \<open>isWhiteSpace\<close> holds of the code units in that range
  that \<^verbatim>\<open>String.prototype.trim\<close> strips: tab, line feed, vertical tab, form feed,
  carriage return, space and no-break space.
\<close>

definition isWhiteSpace :: "char \<Rightarrow> bool" where
  "isWhiteSpace c =
     (c = CHR 0x09 \<or> c = CHR 0x0A \<or> c = CHR 0x0B \<or> c = CHR 0x0C \<or> c = CHR 0x0D
      \<or> c = CHR 0x20 \<or> c = CHR 0xA0)"

definition trim :: "string \<Rightarrow> string" where
  "trim s = rev (dropWhile isWhiteSpace (rev (dropWhile isWhiteSpace s)))"

text \<open>\<^verbatim>\<open>s.split('\n')\<close>: never empty; the empty string gives one empty line.\<close>

fun split_nl :: "string \<Rightarrow> string list" where
  "split_nl [] = [[]]"
| "split_nl (c # cs) =
     (if c = CHR 0x0A then [] # split_nl cs
      else (case split_nl cs of [] \<Rightarrow> [[c]] | l # ls \<Rightarrow> (c # l) # ls))"

text \<open>\<^verbatim>\<open>ls.join('\n')\<close>.\<close>

fun join_nl :: "string list \<Rightarrow> string" where
  "join_nl [] = []"
| "join_nl [l] = l"
| "join_nl (l # m # ls) = l @ CHR 0x0A # join_nl (m # ls)"

text \<open>\<^verbatim>\<open>s.indexOf(p) === 0\<close>.\<close>

definition starts_with :: "string \<Rightarrow> string \<Rightarrow> bool" where
  "starts_with p s = (take (length p) s = p)"

text \<open>\<^verbatim>\<open>s.endsWith(p)\<close>.\<close>

definition endsWith :: "string \<Rightarrow> string \<Rightarrow> bool" where
  "endsWith s p = (take (length p) (rev s) = rev p)"

text \<open>
  \<^verbatim>\<open>s.toLowerCase()\<close> on the letters \<open>A\<close> to \<open>Z\<close>; the program only tests the result for the
  suffixes \<^verbatim>\<open>.js\<close> and \<^verbatim>\<open>.jpl\<close>, which no other code unit lowers to.
\<close>

definition lower_char :: "char \<Rightarrow> char" where
  "lower_char c =
     (case map_of (zip ''ABCDEFGHIJKLMNOPQRSTUVWXYZ'' ''abcdefghijklmnopqrstuvwxyz'') c of
        None \<Rightarrow> c
      | Some l \<Rightarrow> l)"

definition toLowerCase :: "string \<Rightarrow> string" where
  "toLowerCase s = map lower_char s"

section \<open>JavaScript values\<close>

text \<open>
  The values that reach this program as \<^verbatim>\<open>any\<close>: decoded JSON and the settings mapping.
  An object is the list of its own enumerable properties in property order; the keys of a
  well-formed object are distinct. Numbers are integers, arrays are left out, and the
  members inherited from \<^verbatim>\<open>Object.prototype\<close> are not modelled, nor is the rule that puts
  integer-like keys first in the property order.
\<close>

datatype jsval =
    JUndefined
  | JNull
  | JBool bool
  | JNum int
  | JStr string
  | JObj "(string \<times> jsval) list"

text \<open>The truth value of a condition \<^verbatim>\<open>if (v)\<close>, \<^verbatim>\<open>!v\<close>.\<close>

fun truthy :: "jsval \<Rightarrow> bool" where
  "truthy JUndefined = False"
| "truthy JNull = False"
| "truthy (JBool b) = b"
| "truthy (JNum n) = (n \<noteq> 0)"
| "truthy (JStr s) = (s \<noteq> [])"
| "truthy (JObj ps) = True"

definition digit_char :: "nat \<Rightarrow> char" where
  "digit_char n = ''0123456789abcdef'' ! n"

fun decimal :: "nat \<Rightarrow> string" where
  "decimal n =
     (if n < 10 then [digit_char n] else decimal (n div 10) @ [digit_char (n mod 10)])"

text \<open>
  The own enumerable properties that a spread \<^verbatim>\<open>{...v}\<close> copies: those of an object, the
  indexed code units of a string, none of any other value.
\<close>

fun own_props :: "jsval \<Rightarrow> (string \<times> jsval) list" where
  "own_props (JObj ps) = ps"
| "own_props (JStr s) = map (\<lambda>i. (decimal i, JStr [s ! i])) [0..<length s]"
| "own_props v = []"

text \<open>
  A property read \<^verbatim>\<open>v.k\<close> or \<^verbatim>\<open>v[k]\<close>: it throws on \<^verbatim>\<open>null\<close> and \<^verbatim>\<open>undefined\<close> and gives
  \<^verbatim>\<open>undefined\<close> for a property that is absent. A string has its indexed code units and
  its length.
\<close>

fun js_get :: "jsval \<Rightarrow> string \<Rightarrow> error + jsval" where
  "js_get JUndefined k = Inl TypeError"
| "js_get JNull k = Inl TypeError"
| "js_get (JObj ps) k = Inr (case map_of ps k of None \<Rightarrow> JUndefined | Some v \<Rightarrow> v)"
| "js_get (JStr s) k =
     Inr (case map_of (own_props (JStr s)) k of
            None \<Rightarrow> if k = ''length'' then JNum (int (length s)) else JUndefined
          | Some v \<Rightarrow> v)"
| "js_get v k = Inr JUndefined"

text \<open>
  A property assignment \<^verbatim>\<open>v.k = x\<close> in strict-mode code: an existing property keeps its
  place, a new one goes last; on anything but an object it throws.
\<close>

fun js_set :: "jsval \<Rightarrow> string \<Rightarrow> jsval \<Rightarrow> error + jsval" where
  "js_set (JObj ps) k x = Inr (JObj (AList.update k x ps))"
| "js_set v k x = Inl TypeError"

text \<open>
  Copying properties into an object under construction, in order: \<^verbatim>\<open>{...a, ...b}\<close> is
  \<open>assign_props (assign_props [] a) b\<close>.
\<close>

definition assign_props ::
  "(string \<times> jsval) list \<Rightarrow> (string \<times> jsval) list \<Rightarrow> (string \<times> jsval) list" where
  "assign_props target src = fold (\<lambda>(k, v). AList.update k v) src target"

subsection \<open>\<^verbatim>\<open>JSON.stringify\<close>\<close>

definition json_escape_char :: "char \<Rightarrow> string" where
  "json_escape_char c =
     (let n = (of_char c :: nat) in
      if c = CHR 0x22 then [CHR 0x5C, CHR 0x22]
      else if c = CHR 0x5C then [CHR 0x5C, CHR 0x5C]
      else if c = CHR 0x08 then [CHR 0x5C, CHR ''b'']
      else if c = CHR 0x0C then [CHR 0x5C, CHR ''f'']
      else if c = CHR 0x0A then [CHR 0x5C, CHR ''n'']
      else if c = CHR 0x0D then [CHR 0x5C, CHR ''r'']
      else if c = CHR 0x09 then [CHR 0x5C, CHR ''t'']
      else if n < 32 then
        [CHR 0x5C, CHR ''u'', CHR ''0'', CHR ''0'', digit_char (n div 16), digit_char (n mod 16)]
      else [c])"

definition json_quote :: "string \<Rightarrow> string" where
  "json_quote s = CHR 0x22 # concat (map json_escape_char s) @ [CHR 0x22]"

fun join_comma :: "string list \<Rightarrow> string" where
  "join_comma [] = []"
| "join_comma [l] = l"
| "join_comma (l # m # ls) = l @ CHR '','' # join_comma (m # ls)"

text \<open>
  \<^verbatim>\<open>JSON.stringify(v)\<close>; \<open>None\<close> is the result \<^verbatim>\<open>undefined\<close>. A property whose value
  serialises to \<^verbatim>\<open>undefined\<close> is left out of its object.
\<close>

fun JSON_stringify :: "jsval \<Rightarrow> string option" where
  "JSON_stringify JUndefined = None"
| "JSON_stringify JNull = Some ''null''"
| "JSON_stringify (JBool b) = Some (if b then ''true'' else ''false'')"
| "JSON_stringify (JNum n) =
     Some (if n < 0 then CHR ''-'' # decimal (nat (- n)) else decimal (nat n))"
| "JSON_stringify (JStr s) = Some (json_quote s)"
| "JSON_stringify (JObj ps) =
     Some (''{'' @ join_comma (concat (map (\<lambda>(k, v).
        case JSON_stringify v of None \<Rightarrow> [] | Some t \<Rightarrow> [json_quote k @ '':'' @ t]) ps)) @ ''}'')"

section \<open>The settings codec\<close>




section \<open>Plugins and manifests\<close>

text \<open>
  Modelled from the spec: the \<^verbatim>\<open>Plugin\<close> class and \<^verbatim>\<open>manifestFromObject\<close> are imported by
  \<^verbatim>\<open>PluginService.ts\<close> and are not among the sources. A manifest is normalised metadata
  with at least \<open>id\<close> and \<open>app_min_version\<close>, all other fields passing through opaquely.
\<close>

record manifest =
  manifest_id :: string
  app_min_version :: string
  other_fields :: "(string \<times> jsval) list"

text \<open>
  Modelled from the spec: a plugin has a base directory, its manifest, its script text, the
  flag \<open>devMode\<close>, the list of accumulated deprecation notices (each with the version in
  which the deprecated behaviour goes away), and its content contributions by id.
\<close>

record plugin =
  baseDir :: string
  manifest :: manifest
  scriptText :: string
  devMode :: bool
  deprecationNotices :: "(string \<times> string) list"
  contentScripts :: "(string \<times> jsval) list"

text \<open>Modelled from the spec: the id of a plugin is the id of its manifest.\<close>

definition plugin_id :: "plugin \<Rightarrow> string" where
  "plugin_id p = manifest_id (manifest p)"

text \<open>
  Modelled from the spec: \<^verbatim>\<open>manifestFromObject\<close> takes \<open>id\<close> and \<open>app_min_version\<close> from the
  decoded object and passes the other fields through; an object in which one of the two
  is not a string is malformed metadata.
\<close>

definition manifestFromObject :: "jsval \<Rightarrow> error + manifest" where
  "manifestFromObject obj =
     (case obj of
        JObj ps \<Rightarrow>
          (case (map_of ps ''id'', map_of ps ''app_min_version'') of
             (Some (JStr i), Some (JStr v)) \<Rightarrow>
               Inr \<lparr>manifest_id = i, app_min_version = v,
                    other_fields = AList.delete ''id'' (AList.delete ''app_min_version'' ps)\<rparr>
           | _ \<Rightarrow> Inl ManifestDecodeError)
      | _ \<Rightarrow> Inl ManifestDecodeError)"

text \<open>
  Modelled from the spec: \<^verbatim>\<open>new Plugin(baseDir, manifest, scriptText, dispatch)\<close>; the
  dispatch callback is kept for the runner and is not called while loading.
\<close>

definition new_Plugin :: "string \<Rightarrow> manifest \<Rightarrow> string \<Rightarrow> plugin" where
  "new_Plugin dir m script =
     \<lparr>baseDir = dir, manifest = m, scriptText = script, devMode = False,
      deprecationNotices = [], contentScripts = []\<rparr>"

text \<open>Modelled from the spec: \<^verbatim>\<open>plugin.deprecationNotice(goneInVersion, message)\<close>.\<close>

definition deprecationNotice :: "string \<Rightarrow> string \<Rightarrow> plugin \<Rightarrow> plugin" where
  "deprecationNotice goneInVersion message p =
     p\<lparr>deprecationNotices := deprecationNotices p @ [(goneInVersion, message)]\<rparr>"

section \<open>The environment and the state\<close>

type_synonym path = string

record stat =
  stat_path :: path
  isDirectory :: bool

text \<open>
  The collaborators of the service, as parameters: the functions of \<^verbatim>\<open>path-utils\<close>, the
  libraries \<^verbatim>\<open>uslug\<close>, \<^verbatim>\<open>compare-versions\<close>, \<^verbatim>\<open>md5-file\<close> and \<^verbatim>\<open>tar\<close>, \<^verbatim>\<open>JSON.parse\<close>, the
  two values read from \<^verbatim>\<open>Setting\<close>, the file-system driver of \<^verbatim>\<open>shim\<close> over file systems of
  type \<open>'fs\<close>, and the runner. A reading call gives \<open>None\<close> when it throws; a writing call
  gives the file system it leaves and whether it returned normally.
\<close>

record 'fs env =
  filename :: "string \<Rightarrow> string"
  dirname :: "string \<Rightarrow> string"
  rtrimSlashes :: "string \<Rightarrow> string"
  uslug :: "string \<Rightarrow> string"
  compareVersions :: "string \<Rightarrow> string \<Rightarrow> int option"
  JSON_parse :: "string \<Rightarrow> jsval option"
  tempDir :: string
  pluginDir :: string
  fs_readFile :: "'fs \<Rightarrow> path \<Rightarrow> string option"
  fs_exists :: "'fs \<Rightarrow> path \<Rightarrow> bool"
  fs_readDirStats :: "'fs \<Rightarrow> path \<Rightarrow> stat list option"
  md5File :: "'fs \<Rightarrow> path \<Rightarrow> string option"
  fs_remove :: "'fs \<Rightarrow> path \<Rightarrow> bool \<times> 'fs"
  fs_mkdir :: "'fs \<Rightarrow> path \<Rightarrow> bool \<times> 'fs"
  fs_writeFile :: "'fs \<Rightarrow> path \<Rightarrow> string \<Rightarrow> bool \<times> 'fs"
  fs_copy :: "'fs \<Rightarrow> path \<Rightarrow> path \<Rightarrow> bool \<times> 'fs"
  tar_extract :: "'fs \<Rightarrow> path \<Rightarrow> path \<Rightarrow> bool \<times> 'fs"
  runner_run :: "plugin \<Rightarrow> bool"

text \<open>The writing calls to the driver, in the order they are made.\<close>

datatype fscall =
    Remove path
  | Mkdir path
  | Extract path path
  | WriteFile path string
  | Copy path path

text \<open>The actions given to \<^verbatim>\<open>store_.dispatch\<close> and the entries of \<^verbatim>\<open>logger.error\<close>.\<close>

datatype action = PLUGIN_ADD string

datatype log_entry =
    CouldNotLoadPlugin path error
  | CouldNotFindPluginPath string

text \<open>
  The state: the fields \<^verbatim>\<open>appVersion_\<close> and \<^verbatim>\<open>plugins_\<close> of the service (here
  \<open>appVersion\<close> and \<open>pluginsRef\<close>) and the world it acts on. \<open>heap\<close> holds every mapping
  object that was ever the value of \<^verbatim>\<open>plugins_\<close>, by address; \<open>pluginsRef\<close> is the address
  of the current one. \<open>fs_calls\<close>, \<open>dispatched\<close>, \<open>ran\<close>
  and \<open>error_log\<close> record the writing calls to the driver, the dispatched actions, the
  plugins handed to \<^verbatim>\<open>runner_.run\<close> and the logged errors. Informational logging is not
  modelled.
\<close>

record 'fs state =
  appVersion :: string
  heap :: "(string \<rightharpoonup> plugin) list"
  pluginsRef :: nat
  fs :: 'fs
  fs_calls :: "fscall list"
  dispatched :: "action list"
  ran :: "plugin list"
  error_log :: "log_entry list"

text \<open>Sequencing of fallible steps on the state; the state survives an exception.\<close>

definition bind_st ::
  "(error + 'a) \<times> 's \<Rightarrow> ('a \<Rightarrow> 's \<Rightarrow> (error + 'b) \<times> 's) \<Rightarrow> (error + 'b) \<times> 's" where
  "bind_st r f = (case r of (Inl e, s) \<Rightarrow> (Inl e, s) | (Inr v, s) \<Rightarrow> f v s)"

text \<open>A writing call to the driver: its effect on the file system, recorded in \<open>fs_calls\<close>.\<close>

definition fs_call :: "fscall \<Rightarrow> bool \<times> 'fs \<Rightarrow> 'fs state \<Rightarrow> (error + unit) \<times> 'fs state" where
  "fs_call c r st =
     (if fst r then Inr () else Inl CollaboratorError,
      st\<lparr>fs := snd r, fs_calls := fs_calls st @ [c]\<rparr>)"

section \<open>The registry\<close>

text \<open>The getter \<^verbatim>\<open>plugins\<close> returns the reference held in \<^verbatim>\<open>plugins_\<close>.\<close>

definition plugins :: "'fs state \<Rightarrow> nat" where
  "plugins st = pluginsRef st"

text \<open>The mapping a reference points to, and the current registry \<^verbatim>\<open>this.pluginsRef\<close>.\<close>

definition deref :: "'fs state \<Rightarrow> nat \<Rightarrow> (string \<rightharpoonup> plugin)" where
  "deref st r = heap st ! r"

definition registry :: "'fs state \<Rightarrow> (string \<rightharpoonup> plugin)" where
  "registry st = deref st (pluginsRef st)"

text \<open>\<^verbatim>\<open>setPluginAt\<close>: a new object, the spread of the current one with the entry added.\<close>

definition setPluginAt :: "string \<Rightarrow> plugin \<Rightarrow> 'fs state \<Rightarrow> 'fs state" where
  "setPluginAt pluginId p st =
     st\<lparr>heap := heap st @ [(registry st)(pluginId \<mapsto> p)], pluginsRef := length (heap st)\<rparr>"

text \<open>
  \<^verbatim>\<open>deletePluginAt\<close>: nothing when the id has no entry; else a new object, the spread of
  the current one, becomes \<^verbatim>\<open>plugins_\<close> and the entry is deleted from it.
\<close>

definition deletePluginAt :: "string \<Rightarrow> 'fs state \<Rightarrow> 'fs state" where
  "deletePluginAt pluginId st =
     (if registry st pluginId = None then st
      else
        let st1 = st\<lparr>heap := heap st @ [registry st], pluginsRef := length (heap st)\<rparr>
        in st1\<lparr>heap := (heap st1)[pluginsRef st1 := (registry st1)(pluginId := None)]\<rparr>)"

definition pluginById :: "string \<Rightarrow> 'fs state \<Rightarrow> error + plugin" where
  "pluginById i st = (case registry st i of None \<Rightarrow> Inl PluginNotFound | Some p \<Rightarrow> Inr p)"

text \<open>The state of a service after \<^verbatim>\<open>initialize\<close>: an empty registry, nothing done yet.\<close>

definition initial_state :: "string \<Rightarrow> 'fs \<Rightarrow> 'fs state" where
  "initial_state version files =
     \<lparr>appVersion = version, heap = [Map.empty], pluginsRef = 0, fs = files,
      fs_calls = [], dispatched = [], ran = [], error_log = []\<rparr>"

section \<open>The manifest parser: \<^verbatim>\<open>parsePluginJsBundle\<close>\<close>

datatype scan_state = StateStarted | StateInManifest

definition opening_sentinel :: string where
  "opening_sentinel = ''/* joplin-manifest:''"

definition closing_sentinel :: string where
  "closing_sentinel = ''*/''"

text \<open>
  The \<^verbatim>\<open>for (let line of lines)\<close> loop of \<^verbatim>\<open>parsePluginJsBundle\<close>: the arguments are the
  variable \<^verbatim>\<open>state\<close>, the array \<^verbatim>\<open>manifestText\<close> built so far and the lines still to visit;
  the result is \<^verbatim>\<open>manifestText\<close> when the loop ends (at the end of the lines or at the
  \<^verbatim>\<open>break\<close>).
\<close>

fun scan_lines :: "scan_state \<Rightarrow> string list \<Rightarrow> string list \<Rightarrow> string list" where
  "scan_lines state manifestText [] = manifestText"
| "scan_lines state manifestText (l # ls) =
     (let line = trim l in
      if state \<noteq> StateInManifest then
        (if line = opening_sentinel then scan_lines StateInManifest manifestText ls
         else scan_lines state manifestText ls)
      else if starts_with closing_sentinel line then manifestText
      else scan_lines state (manifestText @ [line]) ls)"

text \<open>The result pair is \<open>(scriptText, manifestText)\<close>.\<close>

definition parsePluginJsBundle :: "string \<Rightarrow> error + (string \<times> string)" where
  "parsePluginJsBundle jsBundleString =
     (let scriptText = jsBundleString;
          lines = split_nl scriptText;
          manifestText = scan_lines StateStarted [] lines
      in if manifestText = [] then Inl ManifestNotFound
         else Inr (scriptText, join_nl manifestText))"

text \<open>
  The parser as the specification words it: the trimmed lines strictly between the first
  line that equals the opening sentinel after trimming and the first later line that,
  trimmed, starts with the closing sentinel (or the end of the text when there is none).
\<close>

definition manifest_block :: "string \<Rightarrow> string list" where
  "manifest_block s =
     takeWhile (\<lambda>l. \<not> starts_with closing_sentinel l)
       (drop 1 (dropWhile (\<lambda>l. l \<noteq> opening_sentinel) (map trim (split_nl s))))"

section \<open>Loading\<close>

definition app_min_version_notice :: string where
  "app_min_version_notice =
     ''The manifest must contain an \"app_min_version\" key, which should be the minimum version of the app you support. It was automatically set to \"1.4\", but please update your manifest.json file.''"

definition id_notice :: "string \<Rightarrow> string" where
  "id_notice i =
     ''The manifest must contain an \"id\" key, which should be a globally unique ID for your plugin, such as \"com.example.MyPlugin\" or a UUID. It was automatically set to \"''
       @ i @ ''\", but please update your manifest.json file.''"

text \<open>
  \<^verbatim>\<open>loadPlugin\<close>. The variables \<^verbatim>\<open>manifestObj\<close> and \<^verbatim>\<open>deprecationNotices\<close> are rebound after
  each of the two defaulting steps.
\<close>

definition loadPlugin :: "'fs env \<Rightarrow> string \<Rightarrow> string \<Rightarrow> string \<Rightarrow> string \<Rightarrow> error + plugin" where
  "loadPlugin env baseDir0 manifestText script pluginIdIfNotSpecified =
     (let dir = rtrimSlashes env baseDir0 in
      case JSON_parse env manifestText of
        None \<Rightarrow> Inl ManifestDecodeError
      | Some manifestObj \<Rightarrow>
          bind_err (js_get manifestObj ''app_min_version'') (\<lambda>minVersion.
          bind_err (if \<not> truthy minVersion
                    then js_set manifestObj ''app_min_version'' (JStr ''1.4'')
                    else Inr manifestObj) (\<lambda>manifestObj.
          let notices = (if \<not> truthy minVersion then [app_min_version_notice] else []) in
          bind_err (js_get manifestObj ''id'') (\<lambda>declaredId.
          bind_err (if \<not> truthy declaredId
                    then js_set manifestObj ''id'' (JStr pluginIdIfNotSpecified)
                    else Inr manifestObj) (\<lambda>manifestObj.
          let notices =
                notices @ (if \<not> truthy declaredId then [id_notice pluginIdIfNotSpecified] else [])
          in
          bind_err (manifestFromObject manifestObj) (\<lambda>m.
          let p = fold (deprecationNotice ''1.5'') notices (new_Plugin dir m script)
          in if plugin_id p = [] then Inl MissingPluginId else Inr p))))))"

definition loadPluginFromJsBundle ::
  "'fs env \<Rightarrow> string \<Rightarrow> string \<Rightarrow> string \<Rightarrow> error + plugin" where
  "loadPluginFromJsBundle env baseDir0 jsBundleString pluginIdIfNotSpecified =
     (let dir = rtrimSlashes env baseDir0 in
      bind_err (parsePluginJsBundle jsBundleString) (\<lambda>(script, manifestText).
        loadPlugin env dir manifestText script pluginIdIfNotSpecified))"

text \<open>\<^verbatim>\<open>loadManifestToObject\<close>: \<^verbatim>\<open>null\<close> when the file cannot be read or does not decode.\<close>

definition loadManifestToObject :: "'fs env \<Rightarrow> path \<Rightarrow> 'fs state \<Rightarrow> jsval" where
  "loadManifestToObject env p st =
     (case fs_readFile env (fs st) p of
        None \<Rightarrow> JNull
      | Some manifestText \<Rightarrow>
          (case JSON_parse env manifestText of None \<Rightarrow> JNull | Some v \<Rightarrow> v))"

definition makePluginId :: "'fs env \<Rightarrow> string \<Rightarrow> string" where
  "makePluginId env source = take 32 (uslug env source)"

text \<open>
  The part of \<^verbatim>\<open>loadPluginFromPackage\<close> before its last line: it returns \<^verbatim>\<open>unpackDir\<close>, the
  directory to load from. \<^verbatim>\<open>writeFile\<close> throws when \<^verbatim>\<open>JSON.stringify\<close> gives \<^verbatim>\<open>undefined\<close>.
\<close>

definition unpackPackage :: "'fs env \<Rightarrow> path \<Rightarrow> 'fs state \<Rightarrow> (error + path) \<times> 'fs state" where
  "unpackPackage env p st =
     (let fname = filename env p in
      case md5File env (fs st) p of
        None \<Rightarrow> (Inl CollaboratorError, st)
      | Some hash \<Rightarrow>
          let unpackDir = tempDir env @ ''/'' @ fname;
              manifestFilePath = unpackDir @ ''/manifest.json'';
              m = loadManifestToObject env manifestFilePath st
          in
          if \<not> truthy m \<or> js_get m ''_package_hash'' \<noteq> Inr (JStr hash) then
            bind_st (fs_call (Remove unpackDir) (fs_remove env (fs st) unpackDir) st) (\<lambda>_ st.
            bind_st (fs_call (Mkdir unpackDir) (fs_mkdir env (fs st) unpackDir) st) (\<lambda>_ st.
            bind_st (fs_call (Extract p unpackDir) (tar_extract env (fs st) p unpackDir) st) (\<lambda>_ st.
            let m = loadManifestToObject env manifestFilePath st in
            if \<not> truthy m then (Inl ExtractionFailure, st)
            else
              (case js_set m ''_package_hash'' (JStr hash) of
                 Inl e \<Rightarrow> (Inl e, st)
               | Inr stamped \<Rightarrow>
                   (case JSON_stringify stamped of
                      None \<Rightarrow> (Inl CollaboratorError, st)
                    | Some text \<Rightarrow>
                        bind_st (fs_call (WriteFile manifestFilePath text)
                                   (fs_writeFile env (fs st) manifestFilePath text) st)
                          (\<lambda>_ st. (Inr unpackDir, st)))))))
          else (Inr unpackDir, st))"

text \<open>
  The last branch of \<^verbatim>\<open>loadPluginFromPath\<close>: a directory, with the manifest and the script
  in it or in its \<^verbatim>\<open>dist\<close> subdirectory.
\<close>

definition loadPluginFromDirectory :: "'fs env \<Rightarrow> path \<Rightarrow> 'fs state \<Rightarrow> error + plugin" where
  "loadPluginFromDirectory env p st =
     (let distPath =
            (if \<not> fs_exists env (fs st) (p @ ''/manifest.json'') then p @ ''/dist'' else p)
      in
      case fs_readFile env (fs st) (distPath @ ''/index.js'') of
        None \<Rightarrow> Inl CollaboratorError
      | Some script \<Rightarrow>
          (case fs_readFile env (fs st) (distPath @ ''/manifest.json'') of
             None \<Rightarrow> Inl CollaboratorError
           | Some manifestText \<Rightarrow>
               let pluginId = makePluginId env (filename env p)
               in loadPlugin env distPath manifestText script pluginId))"

text \<open>
  \<^verbatim>\<open>loadPluginFromPath\<close> and \<^verbatim>\<open>loadPluginFromPackage\<close> call each other, and nothing in the
  program bounds the chain of calls (it ends when a path is not that of a package, or
  when a collaborator throws). The first argument bounds the number of calls of
  \<^verbatim>\<open>loadPluginFromPath\<close>; the result \<open>None\<close> says that the bound was reached.
\<close>

fun loadPluginFromPath ::
      "nat \<Rightarrow> 'fs env \<Rightarrow> path \<Rightarrow> 'fs state \<Rightarrow> ((error + plugin) \<times> 'fs state) option"
  and loadPluginFromPackage ::
      "nat \<Rightarrow> 'fs env \<Rightarrow> string \<Rightarrow> path \<Rightarrow> 'fs state \<Rightarrow> ((error + plugin) \<times> 'fs state) option"
where
  "loadPluginFromPath 0 env path0 st = None"
| "loadPluginFromPath (Suc n) env path0 st =
     (let p = rtrimSlashes env path0 in
      if endsWith (toLowerCase p) ''.js'' then
        (case fs_readFile env (fs st) p of
           None \<Rightarrow> Some (Inl CollaboratorError, st)
         | Some jsBundleString \<Rightarrow>
             Some (loadPluginFromJsBundle env (dirname env p) jsBundleString (filename env p), st))
      else if endsWith (toLowerCase p) ''.jpl'' then
        loadPluginFromPackage n env (dirname env p) p st
      else Some (loadPluginFromDirectory env p st, st))"
| "loadPluginFromPackage n env baseDir0 p st =
     (case unpackPackage env p st of
        (Inl e, st') \<Rightarrow> Some (Inl e, st')
      | (Inr unpackDir, st') \<Rightarrow> loadPluginFromPath n env unpackDir st')"

section \<open>Running\<close>

text \<open>
  \<^verbatim>\<open>runPlugin\<close>. The runner is given the plugin and its API object; what it does with them
  is outside this program, so a run is recorded in \<open>ran\<close> and either returns or throws.
\<close>

definition runPlugin :: "'fs env \<Rightarrow> plugin \<Rightarrow> 'fs state \<Rightarrow> (error + unit) \<times> 'fs state" where
  "runPlugin env p st =
     (case compareVersions env (appVersion st) (app_min_version (manifest p)) of
        None \<Rightarrow> (Inl CollaboratorError, st)
      | Some c \<Rightarrow>
          if c < 0 then (Inl VersionTooOld, st)
          else
            let st1 = st\<lparr>dispatched := dispatched st @ [PLUGIN_ADD (plugin_id p)]\<rparr>;
                st2 = st1\<lparr>ran := ran st1 @ [p]\<rparr>
            in (if runner_run env p then Inr () else Inl CollaboratorError, st2))"

section \<open>Batch discovery\<close>

definition pluginEnabled :: "jsval \<Rightarrow> string \<Rightarrow> error + bool" where
  "pluginEnabled settings pluginId =
     bind_err (js_get settings pluginId) (\<lambda>entry.
       if \<not> truthy entry then Inr True
       else bind_err (js_get entry ''enabled'') (\<lambda>e. Inr (e \<noteq> JBool False)))"

text \<open>
  The assignment \<^verbatim>\<open>plugin.devMode = devMode\<close> is made to the plugin object that the current
  mapping already refers to under the plugin's id: the entry shows the new value.
\<close>

definition assign_registered :: "plugin \<Rightarrow> 'fs state \<Rightarrow> 'fs state" where
  "assign_registered p st =
     st\<lparr>heap := (heap st)[pluginsRef st := (registry st)(plugin_id p \<mapsto> p)]\<rparr>"

text \<open>The \<^verbatim>\<open>try\<close> block of the loop of \<^verbatim>\<open>loadAndRunPlugins\<close>, from the loaded plugin on.\<close>

definition registerAndRun ::
  "'fs env \<Rightarrow> jsval \<Rightarrow> bool \<Rightarrow> plugin \<Rightarrow> 'fs state \<Rightarrow> (error + unit) \<times> 'fs state" where
  "registerAndRun env settings dev p st =
     (if registry st (plugin_id p) \<noteq> None then (Inl DuplicateId, st)
      else
        let st1 = setPluginAt (plugin_id p) p st in
        case pluginEnabled settings (plugin_id p) of
          Inl e \<Rightarrow> (Inl e, st1)
        | Inr enabled \<Rightarrow>
            if \<not> enabled then (Inr (), st1)
            else
              let p' = p\<lparr>devMode := dev\<rparr>
              in runPlugin env p' (assign_registered p' st1))"

text \<open>The \<^verbatim>\<open>catch\<close> block: the error is logged with the path of the candidate.\<close>

definition catch_and_log :: "path \<Rightarrow> (error + unit) \<times> 'fs state \<Rightarrow> 'fs state" where
  "catch_and_log pluginPath r =
     (case r of
        (Inl e, st) \<Rightarrow> st\<lparr>error_log := error_log st @ [CouldNotLoadPlugin pluginPath e]\<rparr>
      | (Inr _, st) \<Rightarrow> st)"

text \<open>The test \<^verbatim>\<open>filename(pluginPath).indexOf('_') === 0\<close>.\<close>

definition excluded :: "'fs env \<Rightarrow> path \<Rightarrow> bool" where
  "excluded env pluginPath = starts_with ''_'' (filename env pluginPath)"

text \<open>One round of the loop of \<^verbatim>\<open>loadAndRunPlugins\<close>.\<close>

definition loadCandidate ::
  "nat \<Rightarrow> 'fs env \<Rightarrow> jsval \<Rightarrow> bool \<Rightarrow> path \<Rightarrow> 'fs state \<Rightarrow> 'fs state option" where
  "loadCandidate fuel env settings dev pluginPath st =
     (if excluded env pluginPath then Some st
      else
        (case loadPluginFromPath fuel env pluginPath st of
           None \<Rightarrow> None
         | Some r \<Rightarrow>
             Some (catch_and_log pluginPath (bind_st r (registerAndRun env settings dev)))))"

fun loadCandidates ::
  "nat \<Rightarrow> 'fs env \<Rightarrow> jsval \<Rightarrow> bool \<Rightarrow> path list \<Rightarrow> 'fs state \<Rightarrow> 'fs state option" where
  "loadCandidates fuel env settings dev [] st = Some st"
| "loadCandidates fuel env settings dev (pluginPath # pluginPaths) st =
     (case loadCandidate fuel env settings dev pluginPath st of
        None \<Rightarrow> None
      | Some st' \<Rightarrow> loadCandidates fuel env settings dev pluginPaths st')"

text \<open>The argument \<^verbatim>\<open>pluginDirOrPaths: string | string[]\<close>.\<close>

datatype dirOrPaths = Dir path | Paths "path list"

definition loadAndRunPlugins ::
  "nat \<Rightarrow> 'fs env \<Rightarrow> dirOrPaths \<Rightarrow> jsval \<Rightarrow> bool \<Rightarrow> 'fs state
     \<Rightarrow> ((error + unit) \<times> 'fs state) option" where
  "loadAndRunPlugins fuel env pluginDirOrPaths settings dev st =
     (case pluginDirOrPaths of
        Paths pluginPaths \<Rightarrow>
          map_option (Pair (Inr ())) (loadCandidates fuel env settings dev pluginPaths st)
      | Dir d \<Rightarrow>
          (case fs_readDirStats env (fs st) d of
             None \<Rightarrow> Some (Inl CollaboratorError, st)
           | Some stats \<Rightarrow>
               map_option (Pair (Inr ()))
                 (loadCandidates fuel env settings dev
                    (map (\<lambda>s. d @ ''/'' @ stat_path s)
                       (filter (\<lambda>s. isDirectory s
                                   \<or> endsWith (toLowerCase (stat_path s)) ''.js''
                                   \<or> endsWith (toLowerCase (stat_path s)) ''.jpl'') stats))
                    st)))"

section \<open>Installing and uninstalling\<close>

definition installPlugin ::
  "nat \<Rightarrow> 'fs env \<Rightarrow> path \<Rightarrow> 'fs state \<Rightarrow> ((error + plugin) \<times> 'fs state) option" where
  "installPlugin fuel env jplPath st =
     (case loadPluginFromPath fuel env jplPath st of
        None \<Rightarrow> None
      | Some (Inl e, st1) \<Rightarrow> Some (Inl e, st1)
      | Some (Inr preloadedPlugin, st1) \<Rightarrow>
          let destPath = pluginDir env @ ''/'' @ plugin_id preloadedPlugin @ ''.jpl'' in
          (case fs_call (Copy jplPath destPath) (fs_copy env (fs st1) jplPath destPath) st1 of
             (Inl e, st2) \<Rightarrow> Some (Inl e, st2)
           | (Inr _, st2) \<Rightarrow>
               (case loadPluginFromPath fuel env destPath st2 of
                  None \<Rightarrow> None
                | Some (Inl e, st3) \<Rightarrow> Some (Inl e, st3)
                | Some (Inr p, st3) \<Rightarrow>
                    Some (Inr p,
                          if registry st3 (plugin_id p) = None
                          then setPluginAt (plugin_id p) p st3 else st3))))"

text \<open>\<^verbatim>\<open>pluginPath\<close>: \<open>Inr None\<close> is the result \<^verbatim>\<open>null\<close>.\<close>

definition pluginPath :: "'fs env \<Rightarrow> string \<Rightarrow> 'fs state \<Rightarrow> error + path option" where
  "pluginPath env pluginId st =
     (case fs_readDirStats env (fs st) (pluginDir env) of
        None \<Rightarrow> Inl CollaboratorError
      | Some stats \<Rightarrow>
          Inr (case find (\<lambda>s. filename env (stat_path s) = pluginId) stats of
                 None \<Rightarrow> None
               | Some s \<Rightarrow> Some (pluginDir env @ ''/'' @ stat_path s)))"

definition uninstallPlugin :: "'fs env \<Rightarrow> string \<Rightarrow> 'fs state \<Rightarrow> (error + unit) \<times> 'fs state" where
  "uninstallPlugin env pluginId st =
     (case pluginPath env pluginId st of
        Inl e \<Rightarrow> (Inl e, st)
      | Inr None \<Rightarrow>
          (Inr (),
           deletePluginAt pluginId
             (st\<lparr>error_log := error_log st @ [CouldNotFindPluginPath pluginId]\<rparr>))
      | Inr (Some p) \<Rightarrow>
          bind_st (fs_call (Remove p) (fs_remove env (fs st) p) st)
            (\<lambda>_ st. (Inr (), deletePluginAt pluginId st)))"

text \<open>
  The loop of \<^verbatim>\<open>uninstallPlugins\<close> over the keys of \<^verbatim>\<open>settings\<close> still to visit, with the
  variable \<^verbatim>\<open>newSettings\<close>.
\<close>

fun uninstallPlugins_loop ::
  "'fs env \<Rightarrow> jsval \<Rightarrow> string list \<Rightarrow> jsval \<Rightarrow> 'fs state \<Rightarrow> (error + jsval) \<times> 'fs state" where
  "uninstallPlugins_loop env settings [] newSettings st = (Inr newSettings, st)"
| "uninstallPlugins_loop env settings (pluginId # pluginIds) newSettings st =
     (case bind_err (js_get settings pluginId) (\<lambda>entry. js_get entry ''deleted'') of
        Inl e \<Rightarrow> (Inl e, st)
      | Inr flag \<Rightarrow>
          if truthy flag then
            (case uninstallPlugin env pluginId st of
               (Inl e, st1) \<Rightarrow> (Inl e, st1)
             | (Inr _, st1) \<Rightarrow>
                 uninstallPlugins_loop env settings pluginIds
                   (JObj (AList.delete pluginId (assign_props [] (own_props settings)))) st1)
          else uninstallPlugins_loop env settings pluginIds newSettings st)"

definition uninstallPlugins :: "'fs env \<Rightarrow> jsval \<Rightarrow> 'fs state \<Rightarrow> (error + jsval) \<times> 'fs state" where
  "uninstallPlugins env settings st =
     uninstallPlugins_loop env settings (map fst (own_props settings)) settings st"

section \<open>An example environment\<close>

text \<open>
  A small instance of the collaborators, on which the theorems below are exercised. The
  file system is a list of files with their contents; a directory exists when a file lies
  under it. The hash of a file is its contents, an archive holds one manifest (its own
  contents) and a fixed script, versions are compared as strings, \<^verbatim>\<open>uslug\<close> lowers
  letters, and \<^verbatim>\<open>JSON.parse\<close> knows the manifests of the examples.
\<close>

definition ex_rtrimSlashes :: "string \<Rightarrow> string" where
  "ex_rtrimSlashes p = rev (dropWhile (\<lambda>c. c = CHR ''/'') (rev p))"

definition ex_basename :: "string \<Rightarrow> string" where
  "ex_basename p = rev (takeWhile (\<lambda>c. c \<noteq> CHR ''/'') (rev p))"

definition ex_filename :: "string \<Rightarrow> string" where
  "ex_filename p =
     (let b = ex_basename p
      in if CHR ''.'' \<in> set b then rev (drop 1 (dropWhile (\<lambda>c. c \<noteq> CHR ''.'') (rev b))) else b)"

definition ex_dirname :: "string \<Rightarrow> string" where
  "ex_dirname p = rev (drop 1 (dropWhile (\<lambda>c. c \<noteq> CHR ''/'') (rev p)))"

fun ex_compare :: "string \<Rightarrow> string \<Rightarrow> int" where
  "ex_compare [] [] = 0"
| "ex_compare [] (y # ys) = - 1"
| "ex_compare (x # xs) [] = 1"
| "ex_compare (x # xs) (y # ys) =
     (if x = y then ex_compare xs ys
      else if (of_char x :: nat) < of_char y then - 1 else 1)"

definition manifest_text_a :: string where
  "manifest_text_a = ''{\"id\":\"a\",\"app_min_version\":\"1.4\"}''"

definition manifest_text_A :: string where
  "manifest_text_A = ''{\"id\":\"A\",\"app_min_version\":\"1.4\"}''"

definition manifest_text_new :: string where
  "manifest_text_new = ''{\"id\":\"n\",\"app_min_version\":\"9.0\"}''"

definition manifest_text_k :: string where
  "manifest_text_k = ''{\"id\":\"k\"}''"

definition manifest_text_k_stamped :: string where
  "manifest_text_k_stamped =
     ''{\"id\":\"k\",\"_package_hash\":'' @ json_quote manifest_text_k @ ''}''"

definition ex_JSON_parse :: "string \<Rightarrow> jsval option" where
  "ex_JSON_parse =
     map_of
       [(manifest_text_a, JObj [(''id'', JStr ''a''), (''app_min_version'', JStr ''1.4'')]),
        (manifest_text_A, JObj [(''id'', JStr ''A''), (''app_min_version'', JStr ''1.4'')]),
        (manifest_text_new, JObj [(''id'', JStr ''n''), (''app_min_version'', JStr ''9.0'')]),
        (manifest_text_k, JObj [(''id'', JStr ''k'')]),
        (manifest_text_k_stamped,
           JObj [(''id'', JStr ''k''), (''_package_hash'', JStr manifest_text_k)]),
        (''{}'', JObj [])]"

type_synonym ex_fs = "(path \<times> string) list"

definition ex_readDirStats :: "ex_fs \<Rightarrow> path \<Rightarrow> stat list option" where
  "ex_readDirStats files d =
     Some (map (\<lambda>(p, _). \<lparr>stat_path = drop (length d + 1) p, isDirectory = False\<rparr>)
             (filter (\<lambda>(p, _). starts_with (d @ ''/'') p
                              \<and> CHR ''/'' \<notin> set (drop (length d + 1) p)) files))"

definition ex_remove :: "ex_fs \<Rightarrow> path \<Rightarrow> bool \<times> ex_fs" where
  "ex_remove files p =
     (True, filter (\<lambda>(q, _). q \<noteq> p \<and> \<not> starts_with (p @ ''/'') q) files)"

definition ex_copy :: "ex_fs \<Rightarrow> path \<Rightarrow> path \<Rightarrow> bool \<times> ex_fs" where
  "ex_copy files p q =
     (case map_of files p of
        None \<Rightarrow> (False, files)
      | Some c \<Rightarrow> (True, AList.update q c files))"

definition ex_extract :: "ex_fs \<Rightarrow> path \<Rightarrow> path \<Rightarrow> bool \<times> ex_fs" where
  "ex_extract files archive cwd =
     (case map_of files archive of
        None \<Rightarrow> (False, files)
      | Some c \<Rightarrow>
          (True, AList.update (cwd @ ''/index.js'') ''run()''
                   (AList.update (cwd @ ''/manifest.json'') c files)))"

definition ex_env :: "ex_fs env" where
  "ex_env =
     \<lparr>filename = ex_filename, dirname = ex_dirname, rtrimSlashes = ex_rtrimSlashes,
      uslug = toLowerCase, compareVersions = (\<lambda>a b. Some (ex_compare a b)),
      JSON_parse = ex_JSON_parse, tempDir = ''/tmp'', pluginDir = ''/plugins'',
      fs_readFile = map_of, fs_exists = (\<lambda>files p. map_of files p \<noteq> None),
      fs_readDirStats = ex_readDirStats, md5File = map_of,
      fs_remove = ex_remove, fs_mkdir = (\<lambda>files p. (True, files)),
      fs_writeFile = (\<lambda>files p t. (True, AList.update p t files)),
      fs_copy = ex_copy, tar_extract = ex_extract, runner_run = (\<lambda>p. True)\<rparr>"

text \<open>A script bundle with the given manifest block, followed by one line of code.\<close>

definition ex_bundle :: "string \<Rightarrow> string" where
  "ex_bundle manifestText =
     opening_sentinel @ [CHR 0x0A] @ manifestText @ [CHR 0x0A] @ closing_sentinel
       @ [CHR 0x0A] @ ''run()''"

definition ex_files :: ex_fs where
  "ex_files =
     [(''/p/bad.js'', ''run()''),
      (''/p/a.js'', ex_bundle manifest_text_a),
      (''/p/A.js'', ex_bundle manifest_text_A),
      (''/p/a2.js'', ex_bundle manifest_text_a),
      (''/p/_a.js'', ex_bundle manifest_text_a),
      (''/p/new.js'', ex_bundle manifest_text_new),
      (''/p/k.jpl'', manifest_text_k)]"

definition ex_state :: "ex_fs state" where
  "ex_state = initial_state ''1.8'' ex_files"

definition ex_manifest :: "string \<Rightarrow> string \<Rightarrow> manifest" where
  "ex_manifest i v = \<lparr>manifest_id = i, app_min_version = v, other_fields = []\<rparr>"

definition ex_plugin :: "string \<Rightarrow> string \<Rightarrow> plugin" where
  "ex_plugin i v = new_Plugin ''/p'' (ex_manifest i v) ''run()''"

text \<open>
  The plugins of the bundles \<^verbatim>\<open>/p/a.js\<close> and \<^verbatim>\<open>/p/A.js\<close>, and the state after a batch over
  \<^verbatim>\<open>/p/bad.js\<close> and \<^verbatim>\<open>/p/a.js\<close> with no settings and \<open>devMode\<close> set.
\<close>

definition ex_bundle_plugin :: "string \<Rightarrow> string \<Rightarrow> string \<Rightarrow> plugin" where
  "ex_bundle_plugin i v manifestText =
     new_Plugin ''/p'' (ex_manifest i v) (ex_bundle manifestText)"

definition plugin_a :: plugin where
  "plugin_a = ex_bundle_plugin ''a'' ''1.4'' manifest_text_a"

definition plugin_A :: plugin where
  "plugin_A = ex_bundle_plugin ''A'' ''1.4'' manifest_text_A"

definition ex_state1 :: "ex_fs state" where
  "ex_state1 =
     ex_state\<lparr>heap := [Map.empty, [''a'' \<mapsto> plugin_a\<lparr>devMode := True\<rparr>]], pluginsRef := 1,
       dispatched := [PLUGIN_ADD ''a''], ran := [plugin_a\<lparr>devMode := True\<rparr>],
       error_log := [CouldNotLoadPlugin ''/p/bad.js'' ManifestNotFound]\<rparr>"

text \<open>
  The example for packages: an environment whose \<^verbatim>\<open>JSON.parse\<close> knows the manifest of the
  package \<^verbatim>\<open>/p/k.jpl\<close> and its stamped form, the files and the state after that package was
  unpacked, and the plugin loaded from it.
\<close>

definition ex_env_k :: "ex_fs env" where
  "ex_env_k =
     ex_env\<lparr>JSON_parse :=
       map_of
         [(manifest_text_k, JObj [(''id'', JStr ''k'')]),
          (manifest_text_k_stamped,
             JObj [(''id'', JStr ''k''), (''_package_hash'', JStr manifest_text_k)])]\<rparr>"

definition ex_files_k :: ex_fs where
  "ex_files_k =
     ex_files @ [(''/tmp/k/manifest.json'', manifest_text_k_stamped), (''/tmp/k/index.js'', ''run()'')]"

definition ex_state_k :: "ex_fs state" where
  "ex_state_k =
     ex_state\<lparr>fs := ex_files_k,
       fs_calls := [Remove ''/tmp/k'', Mkdir ''/tmp/k'', Extract ''/p/k.jpl'' ''/tmp/k'',
                    WriteFile ''/tmp/k/manifest.json'' manifest_text_k_stamped]\<rparr>"

definition plugin_k :: plugin where
  "plugin_k =
     (new_Plugin ''/tmp/k''
        \<lparr>manifest_id = ''k'', app_min_version = ''1.4'',
         other_fields = [(''_package_hash'', JStr manifest_text_k)]\<rparr> ''run()'')
       \<lparr>deprecationNotices := [(''1.5'', app_min_version_notice)]\<rparr>"

section \<open>Auxiliary notions for the statements\<close>

text \<open>The test \<^verbatim>\<open>!manifestObj.k\<close> on a decoded object with the properties \<open>ps\<close>.\<close>

definition lacks :: "(string \<times> jsval) list \<Rightarrow> string \<Rightarrow> bool" where
  "lacks ps k = (\<not> truthy (case map_of ps k of None \<Rightarrow> JUndefined | Some v \<Rightarrow> v))"

text \<open>
  The properties of \<^verbatim>\<open>manifestObj\<close> after the two defaulting steps of \<open>loadPlugin\<close>, and the
  messages pushed to \<^verbatim>\<open>deprecationNotices\<close> by them.
\<close>

definition defaulted :: "(string \<times> jsval) list \<Rightarrow> string \<Rightarrow> (string \<times> jsval) list" where
  "defaulted ps fb =
     (let ps1 = (if lacks ps ''app_min_version''
                 then AList.update ''app_min_version'' (JStr ''1.4'') ps else ps)
      in if lacks ps1 ''id'' then AList.update ''id'' (JStr fb) ps1 else ps1)"

definition default_notices :: "(string \<times> jsval) list \<Rightarrow> string \<Rightarrow> string list" where
  "default_notices ps fb =
     (if lacks ps ''app_min_version'' then [app_min_version_notice] else [])
     @ (if lacks ps ''id'' then [id_notice fb] else [])"

text \<open>
  Two states are related by \<open>only_fs\<close> when they differ at most in the file system and in
  the record of the calls to the driver.
\<close>

definition only_fs :: "'fs state \<Rightarrow> 'fs state \<Rightarrow> bool" where
  "only_fs st st' =
     (appVersion st' = appVersion st \<and> heap st' = heap st \<and> pluginsRef st' = pluginsRef st
      \<and> dispatched st' = dispatched st \<and> ran st' = ran st \<and> error_log st' = error_log st)"

text \<open>
  The notions of \<^verbatim>\<open>loadPluginFromPackage\<close>: the directory \<^verbatim>\<open>unpackDir\<close> and the path
  \<^verbatim>\<open>manifestFilePath\<close> of a package; the cache hit, which is the negation of the condition
  \<^verbatim>\<open>!manifest || manifest._package_hash !== hash\<close>; the results of the three driver calls
  \<^verbatim>\<open>remove\<close>, \<^verbatim>\<open>mkdir\<close> and \<^verbatim>\<open>extract\<close> made in a row on a file system, and the state after
  them; and the text written for a manifest with the properties \<open>ps\<close> once it is stamped
  with the hash.
\<close>

definition unpackDir :: "'fs env \<Rightarrow> path \<Rightarrow> path" where
  "unpackDir env p = tempDir env @ ''/'' @ filename env p"

definition manifestFilePath :: "'fs env \<Rightarrow> path \<Rightarrow> path" where
  "manifestFilePath env p = unpackDir env p @ ''/manifest.json''"

definition cache_hit :: "'fs env \<Rightarrow> path \<Rightarrow> string \<Rightarrow> 'fs state \<Rightarrow> bool" where
  "cache_hit env p hash st =
     (let m = loadManifestToObject env (manifestFilePath env p) st
      in truthy m \<and> js_get m ''_package_hash'' = Inr (JStr hash))"

definition wiped :: "'fs env \<Rightarrow> path \<Rightarrow> 'fs \<Rightarrow> bool \<times> 'fs" where
  "wiped env p files = fs_remove env files (unpackDir env p)"

definition remade :: "'fs env \<Rightarrow> path \<Rightarrow> 'fs \<Rightarrow> bool \<times> 'fs" where
  "remade env p files = fs_mkdir env (snd (wiped env p files)) (unpackDir env p)"

definition extracted :: "'fs env \<Rightarrow> path \<Rightarrow> 'fs \<Rightarrow> bool \<times> 'fs" where
  "extracted env p files = tar_extract env (snd (remade env p files)) p (unpackDir env p)"

definition after_extraction :: "'fs env \<Rightarrow> path \<Rightarrow> 'fs state \<Rightarrow> 'fs state" where
  "after_extraction env p st =
     st\<lparr>fs := snd (extracted env p (fs st)),
        fs_calls := fs_calls st
          @ [Remove (unpackDir env p), Mkdir (unpackDir env p), Extract p (unpackDir env p)]\<rparr>"

definition stamped_text :: "string \<Rightarrow> (string \<times> jsval) list \<Rightarrow> string" where
  "stamped_text hash ps =
     (case JSON_stringify (JObj (AList.update ''_package_hash'' (JStr hash) ps)) of
        None \<Rightarrow> []
      | Some text \<Rightarrow> text)"

fun is_Extract :: "fscall \<Rightarrow> bool" where
  "is_Extract (Extract a d) = True"
| "is_Extract c = False"

text \<open>
  Two laws of the collaborators, assumed where stated: a file that was written reads back
  as written; and \<^verbatim>\<open>JSON.parse\<close> inverts \<^verbatim>\<open>JSON.stringify\<close> on a decoded manifest that was
  stamped with the hash.
\<close>

definition read_after_write :: "'fs env \<Rightarrow> bool" where
  "read_after_write env =
     (\<forall>files q t. fst (fs_writeFile env files q t) \<longrightarrow>
        fs_readFile env (snd (fs_writeFile env files q t)) q = Some t)"

definition reparses_stamped :: "'fs env \<Rightarrow> string \<Rightarrow> bool" where
  "reparses_stamped env hash =
     (\<forall>t0 m s t. JSON_parse env t0 = Some m \<longrightarrow>
        js_set m ''_package_hash'' (JStr hash) = Inr s \<longrightarrow>
        JSON_stringify s = Some t \<longrightarrow> JSON_parse env t = Some s)"

text \<open>A settings entry flagged as deleted.\<close>

definition deleted_setting :: jsval where
  "deleted_setting = JObj [(''enabled'', JBool True), (''deleted'', JBool True)]"

section \<open>Properties of the manifest parser\<close>

lemma scan_lines_inside:
  "scan_lines StateInManifest acc ls =
     acc @ takeWhile (\<lambda>l. \<not> starts_with closing_sentinel l) (map trim ls)"
  by (induction ls arbitrary: acc) (simp_all add: Let_def)

lemma scan_lines_outside:
  "scan_lines StateStarted acc ls =
     scan_lines StateInManifest acc (drop 1 (dropWhile (\<lambda>l. trim l \<noteq> opening_sentinel) ls))"
  by (induction ls arbitrary: acc) (simp_all add: Let_def)

lemma scan_lines_block: "scan_lines StateStarted [] (split_nl s) = manifest_block s"
  by (simp add: scan_lines_outside scan_lines_inside manifest_block_def dropWhile_map
      drop_map comp_def)

lemma manifest_block_no_opening:
  "opening_sentinel \<notin> set (map trim (split_nl s)) \<Longrightarrow> manifest_block s = []"
proof -
  assume "opening_sentinel \<notin> set (map trim (split_nl s))"
  then have "dropWhile (\<lambda>l. l \<noteq> opening_sentinel) (map trim (split_nl s)) = []"
    by (metis (mono_tags, lifting) dropWhile_eq_Nil_conv)
  then show ?thesis
    unfolding manifest_block_def by (simp only: drop_Nil takeWhile.simps)
qed

text \<open>
  Claim C6. Let the block of a script text be the trimmed lines strictly between the
  first line that equals the opening sentinel after trimming and the first later line
  that, trimmed, starts with the closing sentinel (\<open>manifest_block\<close>). For every script
  text, \<open>parsePluginJsBundle\<close> fails with \<open>ManifestNotFound\<close> when the block is empty, and
  otherwise returns the script text unchanged together with the lines of the block joined
  with newlines; in particular it fails when no line equals the opening sentinel after
  trimming.
\<close>

theorem parsePluginJsBundle_contract:
  "parsePluginJsBundle s =
     (if manifest_block s = [] then Inl ManifestNotFound
      else Inr (s, join_nl (manifest_block s)))
   \<and> (opening_sentinel \<notin> set (map trim (split_nl s)) \<longrightarrow>
        parsePluginJsBundle s = Inl ManifestNotFound)"
proof -
  have main: "parsePluginJsBundle s =
     (if manifest_block s = [] then Inl ManifestNotFound
      else Inr (s, join_nl (manifest_block s)))"
    by (simp add: parsePluginJsBundle_def scan_lines_block Let_def)
  then show ?thesis
    by (simp add: manifest_block_no_opening)
qed

lemmas ex_string_defs = ex_bundle_def manifest_text_a_def manifest_text_A_def
  manifest_text_new_def manifest_text_k_def manifest_text_k_stamped_def json_quote_def
  json_escape_char_def opening_sentinel_def closing_sentinel_def

lemmas str_defs = trim_def isWhiteSpace_def starts_with_def endsWith_def toLowerCase_def
  lower_char_def

theorem parsePluginJsBundle_contract_witness:
  "parsePluginJsBundle (ex_bundle manifest_text_a)
     = Inr (ex_bundle manifest_text_a, manifest_text_a)
   \<and> opening_sentinel \<notin> set (map trim (split_nl ''run()''))
   \<and> parsePluginJsBundle ''run()'' = Inl ManifestNotFound"
  using parsePluginJsBundle_contract [of "ex_bundle manifest_text_a"]
    parsePluginJsBundle_contract [of "''run()''"]
  by (simp add: manifest_block_def ex_string_defs str_defs)

section \<open>Properties of the registry\<close>

lemma registry_setPluginAt: "registry (setPluginAt k p st) = (registry st)(k \<mapsto> p)"
  by (simp add: registry_def deref_def setPluginAt_def)

lemma registry_deletePluginAt: "registry (deletePluginAt k st) = (registry st)(k := None)"
  by (auto simp add: registry_def deref_def deletePluginAt_def Let_def)

lemma registry_assign_registered:
  "registry (assign_registered p' (setPluginAt k p st))
     = (registry st)(k \<mapsto> p, plugin_id p' \<mapsto> p')"
  by (simp add: registry_def deref_def setPluginAt_def assign_registered_def)

text \<open>
  Claim C3. Every mutation of the registry, by \<open>setPluginAt\<close> or by \<open>deletePluginAt\<close>, puts
  the new mapping at a new address: a reference \<open>r\<close> to a mapping obtained before the
  mutation is not the new value of \<^verbatim>\<open>plugins_\<close>, and the mapping it points to is the same
  after the mutation as before. The registry itself gains, respectively loses, the entry.
\<close>

theorem registry_snapshot_isolation:
  "r < length (heap st) \<Longrightarrow>
     deref (setPluginAt k p st) r = deref st r
   \<and> plugins (setPluginAt k p st) \<noteq> r
   \<and> deref (deletePluginAt k st) r = deref st r
   \<and> (registry st k \<noteq> None \<longrightarrow> plugins (deletePluginAt k st) \<noteq> r)
   \<and> registry (setPluginAt k p st) = (registry st)(k \<mapsto> p)
   \<and> registry (deletePluginAt k st) = (registry st)(k := None)"
  by (simp add: registry_setPluginAt registry_deletePluginAt)
    (simp add: deref_def plugins_def setPluginAt_def deletePluginAt_def Let_def nth_append)

theorem registry_snapshot_isolation_witness:
  "1 < length (heap (setPluginAt ''a'' (ex_plugin ''a'' ''1.4'') ex_state))
   \<and> registry (setPluginAt ''a'' (ex_plugin ''a'' ''1.4'') ex_state) ''a''
       = Some (ex_plugin ''a'' ''1.4'')
   \<and> deref (setPluginAt ''b'' (ex_plugin ''b'' ''1.4'')
        (setPluginAt ''a'' (ex_plugin ''a'' ''1.4'') ex_state)) 1
       = deref (setPluginAt ''a'' (ex_plugin ''a'' ''1.4'') ex_state) 1
   \<and> deref (deletePluginAt ''a'' (setPluginAt ''a'' (ex_plugin ''a'' ''1.4'') ex_state)) 1
       = deref (setPluginAt ''a'' (ex_plugin ''a'' ''1.4'') ex_state) 1
   \<and> plugins (deletePluginAt ''a'' (setPluginAt ''a'' (ex_plugin ''a'' ''1.4'') ex_state)) = 2"
  using registry_snapshot_isolation [of 1 "setPluginAt ''a'' (ex_plugin ''a'' ''1.4'') ex_state"
      "''b''" "ex_plugin ''b'' ''1.4''"]
    registry_snapshot_isolation [of 1 "setPluginAt ''a'' (ex_plugin ''a'' ''1.4'') ex_state"
      "''a''" "ex_plugin ''a'' ''1.4''"]
  by (simp add: setPluginAt_def deletePluginAt_def registry_def deref_def plugins_def
      ex_state_def initial_state_def Let_def)

section \<open>Properties of \<^verbatim>\<open>runPlugin\<close>\<close>

lemma pluginById_runPlugin: "pluginById i (snd (runPlugin env p st)) = pluginById i st"
  by (simp add: runPlugin_def pluginById_def registry_def deref_def Let_def split: option.split)

text \<open>
  Claim C8. When the comparison of the host version with the plugin's \<open>app_min_version\<close> is
  negative, \<open>runPlugin\<close> fails with \<open>VersionTooOld\<close> and leaves the whole state as it was:
  nothing is dispatched, the runner is not called, the registry is untouched. When it is
  zero or positive, the action \<open>PLUGIN_ADD\<close> is dispatched and the plugin is handed to the
  runner, whose outcome is the outcome of the call. In both cases every plugin stays
  retrievable by id.
\<close>

theorem runPlugin_version_gate:
  "compareVersions env (appVersion st) (app_min_version (manifest p)) = Some c \<Longrightarrow>
     (c < 0 \<longrightarrow> runPlugin env p st = (Inl VersionTooOld, st))
   \<and> (0 \<le> c \<longrightarrow> runPlugin env p st =
        (if runner_run env p then Inr () else Inl CollaboratorError,
         st\<lparr>dispatched := dispatched st @ [PLUGIN_ADD (plugin_id p)], ran := ran st @ [p]\<rparr>))
   \<and> (\<forall>i. pluginById i (snd (runPlugin env p st)) = pluginById i st)"
  by (simp add: pluginById_runPlugin) (simp add: runPlugin_def Let_def)

theorem runPlugin_version_gate_witness:
  "compareVersions ex_env (appVersion ex_state) (app_min_version (manifest (ex_plugin ''n'' ''9.0'')))
     = Some (- 1)
   \<and> runPlugin ex_env (ex_plugin ''n'' ''9.0'')
        (setPluginAt ''n'' (ex_plugin ''n'' ''9.0'') ex_state)
       = (Inl VersionTooOld, setPluginAt ''n'' (ex_plugin ''n'' ''9.0'') ex_state)
   \<and> pluginById ''n'' (snd (runPlugin ex_env (ex_plugin ''n'' ''9.0'')
        (setPluginAt ''n'' (ex_plugin ''n'' ''9.0'') ex_state)))
       = Inr (ex_plugin ''n'' ''9.0'')
   \<and> compareVersions ex_env (appVersion ex_state) (app_min_version (manifest (ex_plugin ''a'' ''1.4'')))
     = Some 1
   \<and> dispatched (snd (runPlugin ex_env (ex_plugin ''a'' ''1.4'') ex_state)) = [PLUGIN_ADD ''a'']
   \<and> ran (snd (runPlugin ex_env (ex_plugin ''a'' ''1.4'') ex_state)) = [ex_plugin ''a'' ''1.4'']"
  using runPlugin_version_gate [of ex_env "setPluginAt ''n'' (ex_plugin ''n'' ''9.0'') ex_state"
      "ex_plugin ''n'' ''9.0''" "- 1"]
    runPlugin_version_gate [of ex_env ex_state "ex_plugin ''a'' ''1.4''" 1]
  by (simp add: ex_env_def ex_state_def initial_state_def ex_plugin_def ex_manifest_def
      new_Plugin_def plugin_id_def setPluginAt_def pluginById_def registry_def deref_def)

section \<open>Properties of the batch discovery\<close>

lemma loadCandidates_filter:
  "loadCandidates fuel env settings dev ps st
     = loadCandidates fuel env settings dev (filter (\<lambda>p. \<not> excluded env p) ps) st"
  by (induction ps arbitrary: st) (simp_all add: loadCandidate_def split: option.split)

lemma loadCandidates_all_excluded:
  "\<forall>p\<in>set ps. excluded env p \<Longrightarrow> loadCandidates fuel env settings dev ps st = Some st"
  by (induction ps) (simp_all add: loadCandidate_def)

text \<open>
  Claim C10. The exclusion marker is tested on every candidate of the loop, also on those
  of an explicitly supplied list of paths: a candidate whose file name starts with \<open>_\<close>
  leaves the state as it is, without any attempt to load it (not even one step of
  loading is needed), so it is neither registered nor run; a batch over a list of paths
  does what the batch over its candidates without the marker does, and a batch of
  excluded candidates does nothing. A directory scan runs the same loop over the paths
  it keeps.
\<close>

theorem exclusion_marker_on_every_candidate:
  "(excluded env p \<longrightarrow> loadCandidate fuel env settings dev p st = Some st)
   \<and> loadAndRunPlugins fuel env (Paths ps) settings dev st
       = loadAndRunPlugins fuel env (Paths (filter (\<lambda>p. \<not> excluded env p) ps)) settings dev st
   \<and> ((\<forall>p\<in>set ps. excluded env p) \<longrightarrow>
        loadAndRunPlugins fuel env (Paths ps) settings dev st = Some (Inr (), st))
   \<and> (\<forall>stats. fs_readDirStats env (fs st) d = Some stats \<longrightarrow>
        loadAndRunPlugins fuel env (Dir d) settings dev st
          = loadAndRunPlugins fuel env
              (Paths (map (\<lambda>s. d @ ''/'' @ stat_path s)
                 (filter (\<lambda>s. isDirectory s
                             \<or> endsWith (toLowerCase (stat_path s)) ''.js''
                             \<or> endsWith (toLowerCase (stat_path s)) ''.jpl'') stats)))
              settings dev st)"
  using loadCandidates_filter [of fuel env settings dev ps st]
    loadCandidates_all_excluded [of ps env fuel settings dev st]
  by (simp add: loadAndRunPlugins_def loadCandidate_def)

theorem exclusion_marker_on_every_candidate_witness:
  "excluded ex_env ''/p/_a.js''
   \<and> loadCandidate 0 ex_env (JObj []) False ''/p/_a.js'' ex_state = Some ex_state
   \<and> loadAndRunPlugins 0 ex_env (Paths [''/p/_a.js'', ''/q/_b'']) (JObj []) False ex_state
       = Some (Inr (), ex_state)"
  using exclusion_marker_on_every_candidate [of ex_env "''/p/_a.js''" 0 "JObj []" False ex_state
      "[''/p/_a.js'', ''/q/_b'']"]
  by (simp add: excluded_def ex_env_def ex_filename_def ex_basename_def starts_with_def
      loadAndRunPlugins_def loadCandidate_def)

section \<open>Properties of \<^verbatim>\<open>loadPlugin\<close>\<close>

lemma notices_differ: "app_min_version_notice \<noteq> id_notice i"
  by (simp add: app_min_version_notice_def id_notice_def)

lemma lacks_id_update [simp]:
  "lacks (AList.update ''app_min_version'' x ps) ''id'' = lacks ps ''id''"
  by (simp add: lacks_def update_conv')

lemma fold_deprecationNotice:
  "fold (deprecationNotice g) ns p
     = p\<lparr>deprecationNotices := deprecationNotices p @ map (Pair g) ns\<rparr>"
  by (induction ns arbitrary: p) (simp_all add: deprecationNotice_def)

lemma loadPlugin_object:
  "JSON_parse env text = Some (JObj ps) \<Longrightarrow>
   loadPlugin env b text script fb =
     (case manifestFromObject (JObj (defaulted ps fb)) of
        Inl e \<Rightarrow> Inl e
      | Inr m \<Rightarrow>
          if manifest_id m = [] then Inl MissingPluginId
          else Inr ((new_Plugin (rtrimSlashes env b) m script)
                 \<lparr>deprecationNotices := map (Pair ''1.5'') (default_notices ps fb)\<rparr>))"
  by (simp add: loadPlugin_def bind_err_def lacks_def defaulted_def default_notices_def Let_def
      fold_deprecationNotice new_Plugin_def plugin_id_def update_conv' split: sum.split)


lemma defaulted_id:
  "map_of (defaulted ps fb) ''id'' = (if lacks ps ''id'' then Some (JStr fb) else map_of ps ''id'')"
  by (simp add: defaulted_def Let_def update_conv')

lemma defaulted_app_min_version:
  "map_of (defaulted ps fb) ''app_min_version''
     = (if lacks ps ''app_min_version'' then Some (JStr ''1.4'') else map_of ps ''app_min_version'')"
  by (simp add: defaulted_def Let_def update_conv')

lemma manifestFromObject_defaulted:
  "manifestFromObject (JObj (defaulted ps fb)) =
     (case (if lacks ps ''id'' then Some (JStr fb) else map_of ps ''id'',
            if lacks ps ''app_min_version'' then Some (JStr ''1.4'')
            else map_of ps ''app_min_version'') of
        (Some (JStr i), Some (JStr v)) \<Rightarrow>
          Inr \<lparr>manifest_id = i, app_min_version = v,
               other_fields = AList.delete ''id'' (AList.delete ''app_min_version'' (defaulted ps fb))\<rparr>
      | _ \<Rightarrow> Inl ManifestDecodeError)"
  by (simp add: manifestFromObject_def defaulted_id defaulted_app_min_version)

lemma lacks_string: "map_of ps k = Some (JStr i) \<Longrightarrow> lacks ps k = (i = [])"
  by (simp add: lacks_def)

text \<open>
  Claim C7. Let the manifest text decode to an object. If the object lacks
  \<open>app_min_version\<close>, a loaded plugin has the \<open>app_min_version\<close> \<open>1.4\<close> and exactly one of its
  deprecation notices is the notice about that default. If it lacks \<open>id\<close>, a loaded plugin
  has the fallback id and the notice about it. With \<open>app_min_version\<close> lacking (or a
  string), loading fails with \<open>MissingPluginId\<close> exactly when the id is lacking and the
  fallback id is empty. Loading does succeed when the fallback id is not empty, and when
  the declared id is a string that is not empty.
\<close>

theorem loadPlugin_defaulting:
  assumes "JSON_parse env text = Some (JObj ps)"
  shows
    "(lacks ps ''app_min_version'' \<longrightarrow>
        (\<forall>p. loadPlugin env b text script fb = Inr p \<longrightarrow>
           app_min_version (manifest p) = ''1.4''
           \<and> count_list (map snd (deprecationNotices p)) app_min_version_notice = 1))
     \<and> (lacks ps ''id'' \<longrightarrow>
        (\<forall>p. loadPlugin env b text script fb = Inr p \<longrightarrow>
           plugin_id p = fb \<and> (''1.5'', id_notice fb) \<in> set (deprecationNotices p)))
     \<and> (lacks ps ''app_min_version'' \<or> (\<exists>v. map_of ps ''app_min_version'' = Some (JStr v)) \<longrightarrow>
        (loadPlugin env b text script fb = Inl MissingPluginId) = (lacks ps ''id'' \<and> fb = []))
     \<and> (lacks ps ''app_min_version'' \<and> lacks ps ''id'' \<and> fb \<noteq> [] \<longrightarrow>
        (\<exists>p. loadPlugin env b text script fb = Inr p))
     \<and> (\<forall>i. lacks ps ''app_min_version'' \<and> map_of ps ''id'' = Some (JStr i) \<and> i \<noteq> [] \<longrightarrow>
        (\<exists>p. loadPlugin env b text script fb = Inr p \<and> plugin_id p = i
           \<and> map snd (deprecationNotices p) = [app_min_version_notice]))"
proof -
  note L = loadPlugin_object [OF assms, of b script fb] manifestFromObject_defaulted
  have c1: "lacks ps ''app_min_version'' \<longrightarrow>
        (\<forall>p. loadPlugin env b text script fb = Inr p \<longrightarrow>
           app_min_version (manifest p) = ''1.4''
           \<and> count_list (map snd (deprecationNotices p)) app_min_version_notice = 1)"
    by (auto simp: L default_notices_def new_Plugin_def notices_differ
        notices_differ [symmetric] comp_def
        split: option.splits jsval.splits if_splits)
  have c2: "lacks ps ''id'' \<longrightarrow>
        (\<forall>p. loadPlugin env b text script fb = Inr p \<longrightarrow>
           plugin_id p = fb \<and> (''1.5'', id_notice fb) \<in> set (deprecationNotices p))"
    by (auto simp: L default_notices_def new_Plugin_def plugin_id_def
        split: option.splits jsval.splits if_splits)
  have c3: "lacks ps ''app_min_version'' \<or> (\<exists>v. map_of ps ''app_min_version'' = Some (JStr v)) \<longrightarrow>
        (loadPlugin env b text script fb = Inl MissingPluginId) = (lacks ps ''id'' \<and> fb = [])"
    by (auto simp: L lacks_string split: option.splits jsval.splits if_splits)
  have c4: "lacks ps ''app_min_version'' \<and> lacks ps ''id'' \<and> fb \<noteq> [] \<longrightarrow>
        (\<exists>p. loadPlugin env b text script fb = Inr p)"
    by (simp add: L)
  have c5: "\<forall>i. lacks ps ''app_min_version'' \<and> map_of ps ''id'' = Some (JStr i) \<and> i \<noteq> [] \<longrightarrow>
        (\<exists>p. loadPlugin env b text script fb = Inr p \<and> plugin_id p = i
           \<and> map snd (deprecationNotices p) = [app_min_version_notice])"
    by (simp add: L lacks_string default_notices_def new_Plugin_def plugin_id_def comp_def)
  from c1 c2 c3 c4 c5 show ?thesis by (intro conjI)
qed


theorem loadPlugin_defaulting_witness:
  "JSON_parse ex_env ''{}'' = Some (JObj [])
   \<and> lacks [] ''app_min_version'' \<and> lacks [] ''id''
   \<and> loadPlugin ex_env ''/p'' ''{}'' ''run()'' [] = Inl MissingPluginId
   \<and> (\<exists>p. loadPlugin ex_env ''/p'' ''{}'' ''run()'' ''fallback'' = Inr p
          \<and> plugin_id p = ''fallback'' \<and> app_min_version (manifest p) = ''1.4''
          \<and> count_list (map snd (deprecationNotices p)) app_min_version_notice = 1)
   \<and> JSON_parse ex_env manifest_text_k = Some (JObj [(''id'', JStr ''k'')])
   \<and> (\<exists>p. loadPlugin ex_env ''/p'' manifest_text_k ''run()'' ''fallback'' = Inr p
          \<and> plugin_id p = ''k'' \<and> app_min_version (manifest p) = ''1.4''
          \<and> map snd (deprecationNotices p) = [app_min_version_notice])"
proof -
  have e: "JSON_parse ex_env ''{}'' = Some (JObj [])"
    by (simp add: ex_env_def ex_JSON_parse_def ex_string_defs)
  have k: "JSON_parse ex_env manifest_text_k = Some (JObj [(''id'', JStr ''k'')])"
    by (simp add: ex_env_def ex_JSON_parse_def ex_string_defs)
  have l: "lacks [] ''app_min_version''" "lacks [] ''id''"
    "lacks [(''id'', JStr ''k'')] ''app_min_version''"
    by (simp_all add: lacks_def)
  from loadPlugin_defaulting [OF e, of "''/p''" "''run()''" "[]"]
    loadPlugin_defaulting [OF e, of "''/p''" "''run()''" "''fallback''"]
    loadPlugin_defaulting [OF k, of "''/p''" "''run()''" "''fallback''"]
    e k l
  show ?thesis by auto
qed

section \<open>Properties of the settings codec\<close>














section \<open>Properties of \<^verbatim>\<open>uninstallPlugins\<close>\<close>

text \<open>
  Claim C4 at a settings mapping with two ids flagged as deleted. \<open>uninstallPlugin\<close> runs
  for both (the plugin directory of the example holds neither, which is logged for each),
  but each round assigns to \<^verbatim>\<open>newSettings\<close> a copy of the original \<^verbatim>\<open>settings\<close> without the
  current id: the returned mapping still holds \<open>a\<close>.
\<close>

theorem uninstallPlugins_two_deleted:
  "uninstallPlugins ex_env (JObj [(''a'', deleted_setting), (''b'', deleted_setting)]) ex_state
     = (Inr (JObj [(''a'', deleted_setting)]),
        ex_state\<lparr>error_log := [CouldNotFindPluginPath ''a'', CouldNotFindPluginPath ''b'']\<rparr>)"
  by (simp add: uninstallPlugins_def uninstallPlugin_def pluginPath_def bind_err_def
      deleted_setting_def ex_env_def ex_state_def initial_state_def ex_readDirStats_def
      ex_files_def starts_with_def deletePluginAt_def registry_def deref_def assign_props_def)

section \<open>Loading changes nothing but the file system\<close>

lemma only_fs_refl: "only_fs st st"
  by (simp add: only_fs_def)

lemma only_fs_trans: "only_fs a b \<Longrightarrow> only_fs b c \<Longrightarrow> only_fs a c"
  by (simp add: only_fs_def)

lemma only_fs_fs_call: "only_fs st (snd (fs_call c r st))"
  by (simp add: only_fs_def fs_call_def)

lemma only_fs_bind_st:
  "only_fs st (snd r) \<Longrightarrow> (\<And>v s. only_fs s (snd (f v s))) \<Longrightarrow> only_fs st (snd (bind_st r f))"
  by (cases r) (auto simp: bind_st_def intro: only_fs_trans split: sum.split)

lemma only_fs_registry: "only_fs st st' \<Longrightarrow> registry st' = registry st"
  by (simp add: only_fs_def registry_def deref_def)

lemma loadManifestToObject_cong:
  "fs st' = fs st \<Longrightarrow> loadManifestToObject env p st' = loadManifestToObject env p st"
  by (simp add: loadManifestToObject_def)

lemma only_fs_unpackPackage: "only_fs st (snd (unpackPackage env p st))"
  unfolding unpackPackage_def Let_def
  by (auto intro!: only_fs_bind_st only_fs_fs_call only_fs_refl split: option.split sum.split)

lemma only_fs_loadPluginFromPath:
  "loadPluginFromPath n env p st = Some (r, st') \<Longrightarrow> only_fs st st'"
proof (induction n arbitrary: p st)
  case 0
  then show ?case by simp
next
  case (Suc n)
  show ?case
  proof (cases "\<not> endsWith (toLowerCase (rtrimSlashes env p)) ''.js''
      \<and> endsWith (toLowerCase (rtrimSlashes env p)) ''.jpl''")
    case True
    obtain u s where u: "unpackPackage env (rtrimSlashes env p) st = (u, s)"
      by (cases "unpackPackage env (rtrimSlashes env p) st")
    have fr: "only_fs st s"
      using only_fs_unpackPackage [of st env "rtrimSlashes env p"] u by simp
    show ?thesis
    proof (cases u)
      case (Inl e)
      with Suc.prems True u fr show ?thesis by (simp add: Let_def)
    next
      case (Inr d)
      with Suc.prems True u have "loadPluginFromPath n env d s = Some (r, st')"
        by (simp add: Let_def)
      then have "only_fs s st'" by (rule Suc.IH)
      with fr show ?thesis by (rule only_fs_trans)
    qed
  next
    case False
    with Suc.prems show ?thesis
      by (auto simp: Let_def only_fs_refl split: if_splits option.splits)
  qed
qed

section \<open>Failure isolation in the batch\<close>

lemma registry_runPlugin: "registry (snd (runPlugin env p st)) = registry st"
  by (simp add: runPlugin_def registry_def deref_def Let_def split: option.split)

lemma plugin_id_devMode: "plugin_id (p\<lparr>devMode := d\<rparr>) = plugin_id p"
  by (simp add: plugin_id_def)

lemma registerAndRun_duplicate:
  "registry st (plugin_id p) = Some q \<Longrightarrow>
   registerAndRun env settings dev p st = (Inl DuplicateId, st)"
  by (simp add: registerAndRun_def)

lemma registerAndRun_fresh:
  "registry st (plugin_id p) = None \<Longrightarrow>
   registry (snd (registerAndRun env settings dev p st))
     = (registry st)(plugin_id p \<mapsto>
         (if pluginEnabled settings (plugin_id p) = Inr True then p\<lparr>devMode := dev\<rparr> else p))"
  by (auto simp: registerAndRun_def Let_def registry_runPlugin registry_assign_registered
      registry_setPluginAt plugin_id_devMode split: sum.split)


lemma registerAndRun_keeps:
  "registry st k = Some q \<Longrightarrow> registry (snd (registerAndRun env settings dev p st)) k = Some q"
proof (cases "registry st (plugin_id p)")
  case None
  assume "registry st k = Some q"
  with None have "k \<noteq> plugin_id p" by auto
  with None \<open>registry st k = Some q\<close> show ?thesis
    by (simp add: registerAndRun_fresh)
next
  case (Some a)
  assume "registry st k = Some q"
  with Some show ?thesis by (simp add: registerAndRun_duplicate)
qed

lemma registry_catch_and_log: "registry (catch_and_log p r) = registry (snd r)"
  by (cases r) (simp add: catch_and_log_def registry_def deref_def split: sum.split)

lemma loadCandidate_loaded:
  "\<not> excluded env p \<Longrightarrow> loadPluginFromPath fuel env p st = Some (Inr pl, st2) \<Longrightarrow>
   loadCandidate fuel env settings dev p st
     = Some (catch_and_log p (registerAndRun env settings dev pl st2))"
  by (simp add: loadCandidate_def bind_st_def)

lemma loadCandidate_keeps:
  assumes "loadCandidate fuel env settings dev p st = Some st'" and "registry st k = Some q"
  shows "registry st' k = Some q"
proof (cases "excluded env p")
  case True
  with assms show ?thesis by (simp add: loadCandidate_def)
next
  case False
  with assms obtain r s where l: "loadPluginFromPath fuel env p st = Some (r, s)"
    and st': "st' = catch_and_log p (bind_st (r, s) (registerAndRun env settings dev))"
    by (auto simp: loadCandidate_def split: option.splits)
  from l have "registry s = registry st"
    by (intro only_fs_registry only_fs_loadPluginFromPath)
  with assms(2) have k: "registry s k = Some q" by simp
  show ?thesis
  proof (cases r)
    case (Inl e)
    with st' k show ?thesis by (simp add: registry_catch_and_log bind_st_def)
  next
    case (Inr pl)
    with st' k show ?thesis
      by (simp add: registry_catch_and_log bind_st_def registerAndRun_keeps)
  qed
qed

lemma loadCandidates_keeps:
  "loadCandidates fuel env settings dev ps st = Some st' \<Longrightarrow> registry st k = Some q \<Longrightarrow>
   registry st' k = Some q"
proof (induction ps arbitrary: st)
  case Nil
  then show ?case by simp
next
  case (Cons p ps)
  from Cons.prems(1) obtain s where s: "loadCandidate fuel env settings dev p st = Some s"
    and rest: "loadCandidates fuel env settings dev ps s = Some st'"
    by (auto split: option.splits)
  from s Cons.prems(2) have "registry s k = Some q" by (rule loadCandidate_keeps)
  with rest show ?case by (rule Cons.IH)
qed

lemma loadCandidates_append:
  "loadCandidates fuel env settings dev (ps @ qs) st =
     (case loadCandidates fuel env settings dev ps st of
        None \<Rightarrow> None
      | Some s \<Rightarrow> loadCandidates fuel env settings dev qs s)"
  by (induction ps arbitrary: st) (simp_all split: option.split)




section \<open>The batch on the example environment\<close>

lemmas ex_path_defs = ex_env_def ex_rtrimSlashes_def ex_filename_def ex_basename_def
  ex_dirname_def

lemma ex_parse_a: "parsePluginJsBundle (ex_bundle manifest_text_a)
    = Inr (ex_bundle manifest_text_a, manifest_text_a)"
  by (simp add: parsePluginJsBundle_def ex_string_defs str_defs)

lemma ex_parse_A: "parsePluginJsBundle (ex_bundle manifest_text_A)
    = Inr (ex_bundle manifest_text_A, manifest_text_A)"
  by (simp add: parsePluginJsBundle_def ex_string_defs str_defs)

lemma ex_parse_bad: "parsePluginJsBundle ''run()'' = Inl ManifestNotFound"
  by (simp add: parsePluginJsBundle_def ex_string_defs str_defs)

lemma ex_JSON_a:
  "ex_JSON_parse manifest_text_a = Some (JObj [(''id'', JStr ''a''), (''app_min_version'', JStr ''1.4'')])"
  by (simp add: ex_JSON_parse_def)

lemma ex_JSON_A:
  "ex_JSON_parse manifest_text_A = Some (JObj [(''id'', JStr ''A''), (''app_min_version'', JStr ''1.4'')])"
  by (simp add: ex_JSON_parse_def ex_string_defs)

lemma ex_loadPlugin_a:
  "loadPlugin ex_env ''/p'' manifest_text_a (ex_bundle manifest_text_a) i = Inr plugin_a"
  by (simp add: loadPlugin_def ex_env_def ex_JSON_a bind_err_def manifestFromObject_def
      new_Plugin_def plugin_id_def plugin_a_def ex_bundle_plugin_def ex_manifest_def
      ex_rtrimSlashes_def Let_def)

lemma ex_loadPlugin_A:
  "loadPlugin ex_env ''/p'' manifest_text_A (ex_bundle manifest_text_A) i = Inr plugin_A"
  by (simp add: loadPlugin_def ex_env_def ex_JSON_A bind_err_def manifestFromObject_def
      new_Plugin_def plugin_id_def plugin_A_def ex_bundle_plugin_def ex_manifest_def
      ex_rtrimSlashes_def Let_def)

lemma ex_load_bad:
  "fs st = ex_files \<Longrightarrow>
   loadPluginFromPath (Suc 0) ex_env ''/p/bad.js'' st = Some (Inl ManifestNotFound, st)"
  using ex_parse_bad
  by (simp add: ex_path_defs str_defs ex_files_def loadPluginFromJsBundle_def bind_err_def)

lemma ex_load_a:
  "fs st = ex_files \<Longrightarrow>
   loadPluginFromPath (Suc 0) ex_env ''/p/a.js'' st = Some (Inr plugin_a, st)"
  using ex_parse_a ex_loadPlugin_a
  by (simp add: ex_path_defs str_defs ex_files_def loadPluginFromJsBundle_def bind_err_def)

lemma ex_load_a2:
  "fs st = ex_files \<Longrightarrow>
   loadPluginFromPath (Suc 0) ex_env ''/p/a2.js'' st = Some (Inr plugin_a, st)"
  using ex_parse_a ex_loadPlugin_a
  by (simp add: ex_path_defs str_defs ex_files_def loadPluginFromJsBundle_def bind_err_def)

lemma ex_load_A:
  "fs st = ex_files \<Longrightarrow>
   loadPluginFromPath (Suc 0) ex_env ''/p/A.js'' st = Some (Inr plugin_A, st)"
  using ex_parse_A ex_loadPlugin_A
  by (simp add: ex_path_defs str_defs ex_files_def loadPluginFromJsBundle_def bind_err_def)

lemma ex_not_excluded:
  "\<not> excluded ex_env ''/p/bad.js''" "\<not> excluded ex_env ''/p/a.js''"
  "\<not> excluded ex_env ''/p/a2.js''" "\<not> excluded ex_env ''/p/A.js''"
  by (simp_all add: excluded_def ex_path_defs starts_with_def)

lemma ex_plugin_ids: "plugin_id plugin_a = ''a''" "plugin_id plugin_A = ''A''"
  "app_min_version (manifest plugin_a) = ''1.4''" "app_min_version (manifest plugin_A) = ''1.4''"
  by (simp_all add: plugin_id_def plugin_a_def plugin_A_def ex_bundle_plugin_def new_Plugin_def
      ex_manifest_def)

lemma ex_enabled: "pluginEnabled (JObj []) i = Inr True"
  by (simp add: pluginEnabled_def bind_err_def)

lemma ex_candidate_bad:
  "fs st = ex_files \<Longrightarrow>
   loadCandidate (Suc 0) ex_env settings dev ''/p/bad.js'' st
     = Some (st\<lparr>error_log := error_log st @ [CouldNotLoadPlugin ''/p/bad.js'' ManifestNotFound]\<rparr>)"
  using ex_load_bad [of st]
  by (simp add: loadCandidate_def ex_not_excluded bind_st_def catch_and_log_def)

lemma ex_env_sel:
  "compareVersions ex_env = (\<lambda>a b. Some (ex_compare a b))"
  "runner_run ex_env = (\<lambda>p. True)"
  "tempDir ex_env = ''/tmp''" "pluginDir ex_env = ''/plugins''"
  by (simp_all add: ex_env_def)

lemma ex_register:
  "registry st (plugin_id p) = None \<Longrightarrow> appVersion st = ''1.8'' \<Longrightarrow>
   app_min_version (manifest p) = ''1.4'' \<Longrightarrow>
   registerAndRun ex_env (JObj []) True p st
     = (Inr (), st\<lparr>heap := heap st @ [(registry st)(plugin_id p \<mapsto> p\<lparr>devMode := True\<rparr>)],
                   pluginsRef := length (heap st),
                   dispatched := dispatched st @ [PLUGIN_ADD (plugin_id p)],
                   ran := ran st @ [p\<lparr>devMode := True\<rparr>]\<rparr>)"
  by (simp add: registerAndRun_def ex_enabled plugin_id_devMode runPlugin_def
      assign_registered_def setPluginAt_def registry_def deref_def ex_env_sel Let_def)

lemma ex_batch1:
  "loadCandidates (Suc 0) ex_env (JObj []) True [''/p/bad.js'', ''/p/a.js''] ex_state
     = Some ex_state1"
proof -
  let ?s = "ex_state\<lparr>error_log := error_log ex_state
      @ [CouldNotLoadPlugin ''/p/bad.js'' ManifestNotFound]\<rparr>"
  have f: "fs ex_state = ex_files" "fs ?s = ex_files"
    by (simp_all add: ex_state_def initial_state_def)
  have r: "registry ?s (plugin_id plugin_a) = None" "appVersion ?s = ''1.8''"
    by (simp_all add: ex_state_def initial_state_def registry_def deref_def)
  have "loadCandidate (Suc 0) ex_env (JObj []) True ''/p/a.js'' ?s
      = Some (catch_and_log ''/p/a.js'' (registerAndRun ex_env (JObj []) True plugin_a ?s))"
    using ex_not_excluded(2) ex_load_a [OF f(2)] by (rule loadCandidate_loaded)
  also have "\<dots> = Some ex_state1"
    by (simp add: ex_register [OF r ex_plugin_ids(3)] catch_and_log_def ex_plugin_ids)
      (simp add: ex_state1_def ex_state_def initial_state_def registry_def deref_def)
  finally show ?thesis
    using ex_candidate_bad [OF f(1), of "JObj []" True] by simp
qed

lemma ex_state1_facts:
  "fs ex_state1 = ex_files" "registry ex_state1 ''a'' = Some (plugin_a\<lparr>devMode := True\<rparr>)"
  "registry ex_state1 ''A'' = None" "appVersion ex_state1 = ''1.8''"
  by (simp_all add: ex_state1_def ex_state_def initial_state_def registry_def deref_def)


section \<open>Uniqueness of ids in the registry\<close>

lemma loadAndRunPlugins_keeps:
  "loadAndRunPlugins fuel env dp settings dev st = Some (r, st') \<Longrightarrow>
   registry st k = Some q \<Longrightarrow> registry st' k = Some q"
  by (auto simp: loadAndRunPlugins_def split: dirOrPaths.splits option.splits
      dest: loadCandidates_keeps)

lemma installPlugin_keeps:
  assumes "installPlugin fuel env jplPath st = Some (r, st')" and "registry st k = Some q"
  shows "registry st' k = Some q"
proof -
  from assms(1) obtain r1 st1 where l1: "loadPluginFromPath fuel env jplPath st = Some (r1, st1)"
    by (auto simp: installPlugin_def split: option.splits)
  from l1 have reg1: "registry st1 = registry st"
    by (intro only_fs_registry only_fs_loadPluginFromPath)
  show ?thesis
  proof (cases r1)
    case (Inl e)
    with assms l1 reg1 show ?thesis by (simp add: installPlugin_def)
  next
    case (Inr pre)
    define dest where "dest = pluginDir env @ ''/'' @ plugin_id pre @ ''.jpl''"
    obtain r2 st2 where c: "fs_call (Copy jplPath dest) (fs_copy env (fs st1) jplPath dest) st1 = (r2, st2)"
      by (cases "fs_call (Copy jplPath dest) (fs_copy env (fs st1) jplPath dest) st1")
    from only_fs_fs_call [of st1 "Copy jplPath dest" "fs_copy env (fs st1) jplPath dest"] c
    have reg2: "registry st2 = registry st1" by (simp add: only_fs_registry)
    show ?thesis
    proof (cases r2)
      case (Inl e)
      with assms l1 Inr c reg1 reg2 show ?thesis
        by (simp add: installPlugin_def dest_def Let_def)
    next
      case ok: (Inr u)
      with assms(1) l1 Inr c obtain r3 st3 where
        l3: "loadPluginFromPath fuel env dest st2 = Some (r3, st3)"
        by (auto simp: installPlugin_def dest_def Let_def split: option.splits)
      from l3 have reg3: "registry st3 = registry st2"
        by (intro only_fs_registry only_fs_loadPluginFromPath)
      with reg1 reg2 assms(2) have k3: "registry st3 k = Some q" by simp
      show ?thesis
      proof (cases r3)
        case (Inl e)
        with assms(1) l1 Inr c ok l3 k3 show ?thesis
          by (simp add: installPlugin_def dest_def Let_def)
      next
        case (Inr p)
        with assms(1) l1 \<open>r1 = Inr pre\<close> c ok l3 k3 show ?thesis
          by (auto simp: installPlugin_def dest_def Let_def registry_setPluginAt
              split: if_splits)
      qed
    qed
  qed
qed

text \<open>
  Claim C2, as amended. The registry is keyed by the plugin id as it stands, compared
  exactly: an entry under the id \<open>k\<close> is kept, not overwritten, by a batch discovery and
  by an installation, whatever they return; a candidate with that same id is rejected
  with \<open>DuplicateId\<close> and leaves the state as it is; and the entry stays retrievable.
\<close>

theorem registry_keyed_by_exact_id:
  "registry st k = Some q \<Longrightarrow>
     (\<forall>r st'. loadAndRunPlugins fuel env dp settings dev st = Some (r, st') \<longrightarrow>
        registry st' k = Some q)
   \<and> (\<forall>r st'. installPlugin fuel env jplPath st = Some (r, st') \<longrightarrow> registry st' k = Some q)
   \<and> (\<forall>p. plugin_id p = k \<longrightarrow> registerAndRun env settings dev p st = (Inl DuplicateId, st))
   \<and> pluginById k st = Inr q"
  by (auto simp: pluginById_def registerAndRun_duplicate
      dest: loadAndRunPlugins_keeps installPlugin_keeps)

text \<open>
  The claim as stated fails: the ids \<open>a\<close> and \<open>A\<close>, declared by the manifests of two
  bundles, differ only in letter case and have the same normalised form, yet after one
  batch both plugins are registered.
\<close>

theorem case_variant_ids_counterexample:
  "map_option (\<lambda>(r, st'). (r, registry st' ''a'', registry st' ''A''))
     (loadAndRunPlugins (Suc 0) ex_env (Paths [''/p/bad.js'', ''/p/a.js'', ''/p/A.js''])
        (JObj []) True ex_state)
     = Some (Inr (), Some (plugin_a\<lparr>devMode := True\<rparr>), Some (plugin_A\<lparr>devMode := True\<rparr>))
   \<and> plugin_id plugin_a = ''a'' \<and> plugin_id plugin_A = ''A''
   \<and> toLowerCase ''A'' = toLowerCase ''a''
   \<and> makePluginId ex_env ''A'' = makePluginId ex_env ''a''"
proof -
  have r: "registry ex_state1 (plugin_id plugin_A) = None" "appVersion ex_state1 = ''1.8''"
    by (simp_all add: ex_state1_facts ex_plugin_ids)
  have step: "loadCandidate (Suc 0) ex_env (JObj []) True ''/p/A.js'' ex_state1
      = Some (catch_and_log ''/p/A.js'' (registerAndRun ex_env (JObj []) True plugin_A ex_state1))"
    using ex_not_excluded(4) ex_load_A [OF ex_state1_facts(1)] by (rule loadCandidate_loaded)
  have "loadCandidates (Suc 0) ex_env (JObj []) True
      ([''/p/bad.js'', ''/p/a.js''] @ [''/p/A.js'']) ex_state
      = Some (catch_and_log ''/p/A.js'' (registerAndRun ex_env (JObj []) True plugin_A ex_state1))"
    by (subst loadCandidates_append, simp only: ex_batch1 option.case, simp add: step)
  then have "loadAndRunPlugins (Suc 0) ex_env (Paths [''/p/bad.js'', ''/p/a.js'', ''/p/A.js''])
        (JObj []) True ex_state
      = Some (Inr (), catch_and_log ''/p/A.js''
          (registerAndRun ex_env (JObj []) True plugin_A ex_state1))"
    by (simp add: loadAndRunPlugins_def)
  moreover have "registry (catch_and_log ''/p/A.js''
      (registerAndRun ex_env (JObj []) True plugin_A ex_state1))
      = (registry ex_state1)(''A'' \<mapsto> plugin_A\<lparr>devMode := True\<rparr>)"
    using registerAndRun_fresh [OF r(1), of ex_env "JObj []" True]
    by (simp add: registry_catch_and_log ex_enabled ex_plugin_ids)
  moreover have "makePluginId ex_env ''A'' = makePluginId ex_env ''a''"
    by (simp add: makePluginId_def ex_env_def toLowerCase_def lower_char_def)
  ultimately show ?thesis
    by (simp add: ex_plugin_ids ex_state1_facts toLowerCase_def lower_char_def)
qed

section \<open>The extraction cache\<close>

lemma unpackPackage_hit:
  "md5File env (fs st) p = Some hash \<Longrightarrow> cache_hit env p hash st \<Longrightarrow>
   unpackPackage env p st = (Inr (unpackDir env p), st)"
  by (simp add: unpackPackage_def cache_hit_def manifestFilePath_def unpackDir_def Let_def)

lemma JSON_stringify_object: "JSON_stringify (JObj ps) \<noteq> None"
  by simp

lemma unpackPackage_miss:
  assumes "md5File env (fs st) p = Some hash" and "\<not> cache_hit env p hash st"
  shows "unpackPackage env p st =
     (let d = unpackDir env p; mf = manifestFilePath env p;
          s1 = st\<lparr>fs := snd (wiped env p (fs st)), fs_calls := fs_calls st @ [Remove d]\<rparr>;
          s2 = st\<lparr>fs := snd (remade env p (fs st)), fs_calls := fs_calls st @ [Remove d, Mkdir d]\<rparr>;
          s3 = after_extraction env p st;
          m = loadManifestToObject env mf s3
      in if \<not> fst (wiped env p (fs st)) then (Inl CollaboratorError, s1)
         else if \<not> fst (remade env p (fs st)) then (Inl CollaboratorError, s2)
         else if \<not> fst (extracted env p (fs st)) then (Inl CollaboratorError, s3)
         else if \<not> truthy m then (Inl ExtractionFailure, s3)
         else (case m of
                 JObj ps \<Rightarrow>
                   let w = fs_writeFile env (fs s3) mf (stamped_text hash ps)
                   in (if fst w then Inr d else Inl CollaboratorError,
                       s3\<lparr>fs := snd w,
                          fs_calls := fs_calls s3 @ [WriteFile mf (stamped_text hash ps)]\<rparr>)
               | _ \<Rightarrow> (Inl TypeError, s3)))"
proof -
  have miss: "\<not> truthy (loadManifestToObject env (manifestFilePath env p) st)
      \<or> js_get (loadManifestToObject env (manifestFilePath env p) st) ''_package_hash''
          \<noteq> Inr (JStr hash)"
    using assms(2) by (auto simp: cache_hit_def Let_def)
  have lm: "\<And>f c q. loadManifestToObject env q (st\<lparr>fs := f, fs_calls := c\<rparr>)
      = loadManifestToObject env q (st\<lparr>fs := f\<rparr>)"
    by (simp add: loadManifestToObject_def)
  show ?thesis
    using assms(1) miss
    by (simp add: unpackPackage_def Let_def unpackDir_def manifestFilePath_def bind_st_def
        fs_call_def wiped_def remade_def extracted_def after_extraction_def stamped_text_def lm
        split: jsval.split)
qed

lemma truthy_loadManifestToObject:
  "truthy (loadManifestToObject env q s) \<Longrightarrow>
   \<exists>t0. fs_readFile env (fs s) q = Some t0 \<and> JSON_parse env t0 = Some (loadManifestToObject env q s)"
  by (auto simp: loadManifestToObject_def split: option.splits)

lemma unpackPackage_miss_success:
  assumes "md5File env (fs st) p = Some hash" and "\<not> cache_hit env p hash st"
    and "unpackPackage env p st = (Inr d, st1)"
  shows "\<exists>ps. loadManifestToObject env (manifestFilePath env p) (after_extraction env p st) = JObj ps
      \<and> fst (fs_writeFile env (fs (after_extraction env p st)) (manifestFilePath env p)
            (stamped_text hash ps))
      \<and> d = unpackDir env p
      \<and> st1 = (after_extraction env p st)
          \<lparr>fs := snd (fs_writeFile env (fs (after_extraction env p st)) (manifestFilePath env p)
                   (stamped_text hash ps)),
           fs_calls := fs_calls (after_extraction env p st)
             @ [WriteFile (manifestFilePath env p) (stamped_text hash ps)]\<rparr>"
  using assms(3) unfolding unpackPackage_miss [OF assms(1,2)] Let_def
  by (auto split: if_splits jsval.splits)

lemma cache_hit_after_stamping:
  assumes raw: "read_after_write env" and json: "reparses_stamped env hash"
    and m: "loadManifestToObject env mf s3 = JObj ps"
    and w: "fst (fs_writeFile env (fs s3) mf (stamped_text hash ps))"
    and mf: "mf = manifestFilePath env p"
  shows "cache_hit env p hash
           (s3\<lparr>fs := snd (fs_writeFile env (fs s3) mf (stamped_text hash ps)), fs_calls := c\<rparr>)"
proof -
  from m have "truthy (loadManifestToObject env mf s3)" by simp
  then obtain t0 where t0: "JSON_parse env t0 = Some (JObj ps)"
    using truthy_loadManifestToObject [of env mf s3] m by auto
  have "JSON_stringify (JObj (AList.update ''_package_hash'' (JStr hash) ps))
      = Some (stamped_text hash ps)"
    by (simp add: stamped_text_def)
  with json t0 have p: "JSON_parse env (stamped_text hash ps)
      = Some (JObj (AList.update ''_package_hash'' (JStr hash) ps))"
    unfolding reparses_stamped_def by (metis js_set.simps(1))
  from raw w have r: "fs_readFile env (snd (fs_writeFile env (fs s3) mf (stamped_text hash ps))) mf
      = Some (stamped_text hash ps)"
    unfolding read_after_write_def by blast
  show ?thesis
    by (simp add: cache_hit_def loadManifestToObject_def mf [symmetric] r p update_conv')
qed

lemma count_Extract_after_extraction:
  "length (filter is_Extract (fs_calls (after_extraction env p st)))
     = Suc (length (filter is_Extract (fs_calls st)))"
  by (simp add: after_extraction_def)

lemma unpackPackage_twice:
  assumes md5: "md5File env (fs st) p = Some hash"
    and first: "unpackPackage env p st = (Inr d, st1)"
    and unchanged: "md5File env (fs st1) p = Some hash"
    and raw: "read_after_write env" and json: "reparses_stamped env hash"
  shows "unpackPackage env p st1 = (Inr d, st1)
     \<and> length (filter is_Extract (fs_calls st1))
         = (if cache_hit env p hash st then 0 else 1) + length (filter is_Extract (fs_calls st))"
proof (cases "cache_hit env p hash st")
  case True
  with md5 first have "st1 = st" "d = unpackDir env p"
    by (simp_all add: unpackPackage_hit)
  with True md5 show ?thesis by (simp add: unpackPackage_hit)
next
  case False
  from unpackPackage_miss_success [OF md5 False first]
  obtain ps where m: "loadManifestToObject env (manifestFilePath env p) (after_extraction env p st) = JObj ps"
    and w: "fst (fs_writeFile env (fs (after_extraction env p st)) (manifestFilePath env p)
            (stamped_text hash ps))"
    and d: "d = unpackDir env p"
    and st1: "st1 = (after_extraction env p st)
          \<lparr>fs := snd (fs_writeFile env (fs (after_extraction env p st)) (manifestFilePath env p)
                   (stamped_text hash ps)),
           fs_calls := fs_calls (after_extraction env p st)
             @ [WriteFile (manifestFilePath env p) (stamped_text hash ps)]\<rparr>"
    by blast
  have "cache_hit env p hash st1"
    unfolding st1 using raw json m w by (rule cache_hit_after_stamping) simp
  with unchanged d have "unpackPackage env p st1 = (Inr d, st1)"
    by (simp add: unpackPackage_hit)
  moreover have "length (filter is_Extract (fs_calls st1))
      = Suc (length (filter is_Extract (fs_calls st)))"
    by (simp add: st1 count_Extract_after_extraction)
  ultimately show ?thesis using False by simp
qed

lemma loadPluginFromPath_no_write:
  "\<not> endsWith (toLowerCase (rtrimSlashes env q)) ''.jpl'' \<Longrightarrow>
   loadPluginFromPath n env q s = Some (r, s') \<Longrightarrow> s' = s"
  by (cases n) (auto simp: Let_def split: if_splits option.splits)

lemma loadPluginFromPackage_twice:
  assumes md5: "md5File env (fs st) p = Some hash"
    and first: "loadPluginFromPackage n env b p st = Some (r1, st1)"
    and unpacked: "fst (unpackPackage env p st) = Inr d"
    and dir: "\<not> endsWith (toLowerCase (rtrimSlashes env d)) ''.jpl''"
    and unchanged: "md5File env (fs st1) p = Some hash"
    and raw: "read_after_write env" and json: "reparses_stamped env hash"
  shows "loadPluginFromPackage n env b p st1 = Some (r1, st1)
     \<and> length (filter is_Extract (fs_calls st1))
         = (if cache_hit env p hash st then 0 else 1) + length (filter is_Extract (fs_calls st))"
proof -
  obtain su where u: "unpackPackage env p st = (Inr d, su)"
    using unpacked by (cases "unpackPackage env p st") simp
  with first have l: "loadPluginFromPath n env d su = Some (r1, st1)" by simp
  with dir have "st1 = su" by (rule loadPluginFromPath_no_write)
  with u l have u1: "unpackPackage env p st = (Inr d, st1)"
    and l1: "loadPluginFromPath n env d st1 = Some (r1, st1)" by simp_all
  from unpackPackage_twice [OF md5 u1 unchanged raw json] l1 show ?thesis by simp
qed

lemma unpackPackage_miss_wipes_first:
  assumes "md5File env (fs st) p = Some hash" and "\<not> cache_hit env p hash st"
  shows "take (Suc (length (fs_calls st))) (fs_calls (snd (unpackPackage env p st)))
     = fs_calls st @ [Remove (unpackDir env p)]"
  unfolding unpackPackage_miss [OF assms] Let_def
  by (simp add: after_extraction_def split: jsval.split)

text \<open>
  Claim C5. Let \<open>hash\<close> be the hash of the package file. On a cache hit (a manifest at
  the unpack target decodes to a truthy value whose \<open>_package_hash\<close> is \<open>hash\<close>) no call
  is made to the driver and the plugin is loaded from the existing directory. Otherwise
  the first call wipes the target directory; when the wipe, the \<^verbatim>\<open>mkdir\<close> and the
  extraction return normally, the outcome is \<open>ExtractionFailure\<close> if no manifest is found
  afterwards, and for a manifest object the manifest stamped with the hash is written to
  the manifest path. Finally, when a load of the package has unpacked it and loaded the
  plugin from a directory, and the package file still has the same hash, a second load
  makes no call to the driver at all and returns the same result: over both loads there
  is exactly one extraction when the first load missed the cache, and none when it hit.
  This last part assumes that a written file reads back as written and that
  \<^verbatim>\<open>JSON.parse\<close> inverts \<^verbatim>\<open>JSON.stringify\<close> on the stamped manifest.
\<close>

theorem package_extraction_cache:
  assumes "md5File env (fs st) p = Some hash"
  shows
    "(cache_hit env p hash st \<longrightarrow>
        unpackPackage env p st = (Inr (unpackDir env p), st)
        \<and> loadPluginFromPackage n env b p st = loadPluginFromPath n env (unpackDir env p) st)
     \<and> (\<not> cache_hit env p hash st \<longrightarrow>
        take (Suc (length (fs_calls st))) (fs_calls (snd (unpackPackage env p st)))
          = fs_calls st @ [Remove (unpackDir env p)])
     \<and> (\<not> cache_hit env p hash st \<and> fst (wiped env p (fs st)) \<and> fst (remade env p (fs st))
          \<and> fst (extracted env p (fs st)) \<longrightarrow>
        (\<not> truthy (loadManifestToObject env (manifestFilePath env p) (after_extraction env p st)) \<longrightarrow>
           unpackPackage env p st = (Inl ExtractionFailure, after_extraction env p st))
        \<and> (\<forall>ps. loadManifestToObject env (manifestFilePath env p) (after_extraction env p st)
                  = JObj ps \<longrightarrow>
             unpackPackage env p st =
               (if fst (fs_writeFile env (fs (after_extraction env p st)) (manifestFilePath env p)
                          (stamped_text hash ps))
                then Inr (unpackDir env p) else Inl CollaboratorError,
                (after_extraction env p st)
                  \<lparr>fs := snd (fs_writeFile env (fs (after_extraction env p st))
                           (manifestFilePath env p) (stamped_text hash ps)),
                   fs_calls := fs_calls (after_extraction env p st)
                     @ [WriteFile (manifestFilePath env p) (stamped_text hash ps)]\<rparr>)))
     \<and> (\<forall>r1 st1 d.
          loadPluginFromPackage n env b p st = Some (r1, st1)
          \<and> fst (unpackPackage env p st) = Inr d
          \<and> \<not> endsWith (toLowerCase (rtrimSlashes env d)) ''.jpl''
          \<and> md5File env (fs st1) p = Some hash
          \<and> read_after_write env \<and> reparses_stamped env hash \<longrightarrow>
          loadPluginFromPackage n env b p st1 = Some (r1, st1)
          \<and> length (filter is_Extract (fs_calls st1))
              = (if cache_hit env p hash st then 0 else 1)
                + length (filter is_Extract (fs_calls st)))"
proof (intro conjI)
  show "cache_hit env p hash st \<longrightarrow>
        unpackPackage env p st = (Inr (unpackDir env p), st)
        \<and> loadPluginFromPackage n env b p st = loadPluginFromPath n env (unpackDir env p) st"
    using assms by (simp add: unpackPackage_hit)
  show "\<not> cache_hit env p hash st \<longrightarrow>
        take (Suc (length (fs_calls st))) (fs_calls (snd (unpackPackage env p st)))
          = fs_calls st @ [Remove (unpackDir env p)]"
    using assms by (simp add: unpackPackage_miss_wipes_first)
  show "\<not> cache_hit env p hash st \<and> fst (wiped env p (fs st)) \<and> fst (remade env p (fs st))
          \<and> fst (extracted env p (fs st)) \<longrightarrow>
        (\<not> truthy (loadManifestToObject env (manifestFilePath env p) (after_extraction env p st)) \<longrightarrow>
           unpackPackage env p st = (Inl ExtractionFailure, after_extraction env p st))
        \<and> (\<forall>ps. loadManifestToObject env (manifestFilePath env p) (after_extraction env p st)
                  = JObj ps \<longrightarrow>
             unpackPackage env p st =
               (if fst (fs_writeFile env (fs (after_extraction env p st)) (manifestFilePath env p)
                          (stamped_text hash ps))
                then Inr (unpackDir env p) else Inl CollaboratorError,
                (after_extraction env p st)
                  \<lparr>fs := snd (fs_writeFile env (fs (after_extraction env p st))
                           (manifestFilePath env p) (stamped_text hash ps)),
                   fs_calls := fs_calls (after_extraction env p st)
                     @ [WriteFile (manifestFilePath env p) (stamped_text hash ps)]\<rparr>))"
    using assms by (simp add: unpackPackage_miss Let_def)
  show "\<forall>r1 st1 d.
          loadPluginFromPackage n env b p st = Some (r1, st1)
          \<and> fst (unpackPackage env p st) = Inr d
          \<and> \<not> endsWith (toLowerCase (rtrimSlashes env d)) ''.jpl''
          \<and> md5File env (fs st1) p = Some hash
          \<and> read_after_write env \<and> reparses_stamped env hash \<longrightarrow>
          loadPluginFromPackage n env b p st1 = Some (r1, st1)
          \<and> length (filter is_Extract (fs_calls st1))
              = (if cache_hit env p hash st then 0 else 1)
                + length (filter is_Extract (fs_calls st))"
  proof (intro allI impI, elim conjE)
    fix r1 st1 d
    assume "loadPluginFromPackage n env b p st = Some (r1, st1)"
      and "fst (unpackPackage env p st) = Inr d"
      and "\<not> endsWith (toLowerCase (rtrimSlashes env d)) ''.jpl''"
      and "md5File env (fs st1) p = Some hash"
      and "read_after_write env" and "reparses_stamped env hash"
    with assms show "loadPluginFromPackage n env b p st1 = Some (r1, st1)
        \<and> length (filter is_Extract (fs_calls st1))
            = (if cache_hit env p hash st then 0 else 1)
              + length (filter is_Extract (fs_calls st))"
      by (rule loadPluginFromPackage_twice)
  qed
qed

section \<open>The extraction cache on the example environment\<close>

lemma ex_env_k_sel:
  "filename ex_env_k = ex_filename" "dirname ex_env_k = ex_dirname"
  "rtrimSlashes ex_env_k = ex_rtrimSlashes" "tempDir ex_env_k = ''/tmp''"
  "pluginDir ex_env_k = ''/plugins''" "md5File ex_env_k = map_of" "fs_readFile ex_env_k = map_of"
  "fs_exists ex_env_k = (\<lambda>files p. map_of files p \<noteq> None)"
  "fs_remove ex_env_k = ex_remove" "fs_mkdir ex_env_k = (\<lambda>files p. (True, files))"
  "fs_writeFile ex_env_k = (\<lambda>files p t. (True, AList.update p t files))"
  "tar_extract ex_env_k = ex_extract" "uslug ex_env_k = toLowerCase"
  "fs_copy ex_env_k = ex_copy"
  by (simp_all add: ex_env_k_def ex_env_def)

lemma ex_k_parse:
  "JSON_parse ex_env_k manifest_text_k = Some (JObj [(''id'', JStr ''k'')])"
  "JSON_parse ex_env_k manifest_text_k_stamped
     = Some (JObj [(''id'', JStr ''k''), (''_package_hash'', JStr manifest_text_k)])"
  by (simp_all add: ex_env_k_def ex_string_defs)

lemma ex_k_paths:
  "unpackDir ex_env_k ''/p/k.jpl'' = ''/tmp/k''"
  "manifestFilePath ex_env_k ''/p/k.jpl'' = ''/tmp/k/manifest.json''"
  by (simp_all add: manifestFilePath_def unpackDir_def ex_env_k_sel ex_filename_def ex_basename_def)

lemma ex_k_md5: "md5File ex_env_k (fs ex_state) ''/p/k.jpl'' = Some manifest_text_k"
  by (simp add: ex_env_k_sel ex_state_def initial_state_def ex_files_def)

lemma ex_k_md5': "md5File ex_env_k (fs ex_state_k) ''/p/k.jpl'' = Some manifest_text_k"
  by (simp add: ex_env_k_sel ex_state_k_def ex_files_k_def ex_files_def)

lemma ex_k_stamped_text:
  "stamped_text manifest_text_k [(''id'', JStr ''k'')] = manifest_text_k_stamped"
  by (simp add: stamped_text_def manifest_text_k_stamped_def json_quote_def json_escape_char_def)

lemma ex_k_miss: "\<not> cache_hit ex_env_k ''/p/k.jpl'' manifest_text_k ex_state"
  by (simp add: cache_hit_def ex_k_paths loadManifestToObject_def ex_env_k_sel ex_state_def
      initial_state_def ex_files_def)

lemma ex_k_extraction:
  "fst (wiped ex_env_k ''/p/k.jpl'' (fs ex_state))"
  "fst (remade ex_env_k ''/p/k.jpl'' (fs ex_state))"
  "fst (extracted ex_env_k ''/p/k.jpl'' (fs ex_state))"
  "snd (extracted ex_env_k ''/p/k.jpl'' (fs ex_state))
     = ex_files @ [(''/tmp/k/manifest.json'', manifest_text_k), (''/tmp/k/index.js'', ''run()'')]"
  by (simp_all add: wiped_def remade_def extracted_def ex_k_paths ex_env_k_sel ex_remove_def
      ex_extract_def ex_state_def initial_state_def ex_files_def starts_with_def)

lemma ex_k_manifest_after:
  "loadManifestToObject ex_env_k (manifestFilePath ex_env_k ''/p/k.jpl'')
     (after_extraction ex_env_k ''/p/k.jpl'' ex_state) = JObj [(''id'', JStr ''k'')]"
  by (simp add: loadManifestToObject_def after_extraction_def ex_k_extraction ex_k_paths
      ex_env_k_sel ex_k_parse ex_files_def)

lemma ex_k_written:
  "(after_extraction ex_env_k ''/p/k.jpl'' ex_state)
     \<lparr>fs := snd (fs_writeFile ex_env_k (fs (after_extraction ex_env_k ''/p/k.jpl'' ex_state))
              (manifestFilePath ex_env_k ''/p/k.jpl'') manifest_text_k_stamped),
      fs_calls := fs_calls (after_extraction ex_env_k ''/p/k.jpl'' ex_state)
        @ [WriteFile (manifestFilePath ex_env_k ''/p/k.jpl'') manifest_text_k_stamped]\<rparr>
   = ex_state_k"
  by (simp add: after_extraction_def ex_k_extraction ex_k_paths ex_env_k_sel)
    (simp add: ex_state_k_def ex_files_k_def ex_files_def ex_state_def initial_state_def)

lemma ex_k_load_dir_general:
  assumes "map_of (fs st) ''/tmp/k/manifest.json'' = Some manifest_text_k_stamped"
    and "map_of (fs st) ''/tmp/k/index.js'' = Some ''run()''"
  shows "loadPluginFromPath (Suc n) ex_env_k ''/tmp/k'' st = Some (Inr plugin_k, st)"
proof -
  have "loadPlugin ex_env_k ''/tmp/k'' manifest_text_k_stamped ''run()'' i = Inr plugin_k" for i
    by (simp add: loadPlugin_def ex_k_parse bind_err_def manifestFromObject_def new_Plugin_def
        plugin_id_def plugin_k_def deprecationNotice_def ex_env_k_sel ex_rtrimSlashes_def
        Let_def)
  then show ?thesis
    by (simp add: ex_env_k_sel ex_rtrimSlashes_def str_defs loadPluginFromDirectory_def assms)
qed

lemma ex_k_load_dir:
  "loadPluginFromPath (Suc 0) ex_env_k ''/tmp/k'' ex_state_k = Some (Inr plugin_k, ex_state_k)"
  by (rule ex_k_load_dir_general) (simp_all add: ex_state_k_def ex_files_k_def ex_files_def)

lemma ex_k_read_after_write: "read_after_write ex_env_k"
  by (simp add: read_after_write_def ex_env_k_sel update_conv')

lemma ex_k_reparses: "reparses_stamped ex_env_k manifest_text_k"
proof -
  have "JSON_parse ex_env_k t = Some s"
    if "JSON_parse ex_env_k t0 = Some m" "js_set m ''_package_hash'' (JStr manifest_text_k) = Inr s"
      "JSON_stringify s = Some t" for t0 m s t
  proof -
    from that(1) have "m = JObj [(''id'', JStr ''k'')]
        \<or> m = JObj [(''id'', JStr ''k''), (''_package_hash'', JStr manifest_text_k)]"
      by (auto simp: ex_env_k_def split: if_splits)
    with that(2) have s: "s = JObj [(''id'', JStr ''k''), (''_package_hash'', JStr manifest_text_k)]"
      by auto
    with that(3) have "t = manifest_text_k_stamped"
      using ex_k_stamped_text by (simp add: stamped_text_def)
    with s show ?thesis by (simp add: ex_k_parse)
  qed
  then show ?thesis unfolding reparses_stamped_def by blast
qed

lemma ex_k_hit: "cache_hit ex_env_k ''/p/k.jpl'' manifest_text_k ex_state_k"
  by (simp add: cache_hit_def ex_k_paths loadManifestToObject_def ex_env_k_sel ex_k_parse
      ex_state_k_def ex_files_k_def ex_files_def)

lemma ex_k_not_package: "\<not> endsWith (toLowerCase (rtrimSlashes ex_env_k ''/tmp/k'')) ''.jpl''"
  by (simp add: ex_env_k_sel ex_rtrimSlashes_def str_defs)

theorem package_extraction_cache_witness:
  "md5File ex_env_k (fs ex_state) ''/p/k.jpl'' = Some manifest_text_k
   \<and> \<not> cache_hit ex_env_k ''/p/k.jpl'' manifest_text_k ex_state
   \<and> unpackPackage ex_env_k ''/p/k.jpl'' ex_state = (Inr ''/tmp/k'', ex_state_k)
   \<and> loadPluginFromPackage (Suc 0) ex_env_k ''/p'' ''/p/k.jpl'' ex_state
       = Some (Inr plugin_k, ex_state_k)
   \<and> read_after_write ex_env_k \<and> reparses_stamped ex_env_k manifest_text_k
   \<and> cache_hit ex_env_k ''/p/k.jpl'' manifest_text_k ex_state_k
   \<and> unpackPackage ex_env_k ''/p/k.jpl'' ex_state_k = (Inr ''/tmp/k'', ex_state_k)
   \<and> loadPluginFromPackage (Suc 0) ex_env_k ''/p'' ''/p/k.jpl'' ex_state_k
       = Some (Inr plugin_k, ex_state_k)
   \<and> length (filter is_Extract (fs_calls ex_state_k)) = 1"
proof -
  note first = package_extraction_cache [OF ex_k_md5, of "Suc 0" "''/p''"]
  note again = package_extraction_cache [OF ex_k_md5', of "Suc 0" "''/p''"]
  from first ex_k_miss ex_k_extraction(1,2,3) ex_k_manifest_after
  have "unpackPackage ex_env_k ''/p/k.jpl'' ex_state =
      (if fst (fs_writeFile ex_env_k (fs (after_extraction ex_env_k ''/p/k.jpl'' ex_state))
                 (manifestFilePath ex_env_k ''/p/k.jpl'')
                 (stamped_text manifest_text_k [(''id'', JStr ''k'')]))
       then Inr (unpackDir ex_env_k ''/p/k.jpl'') else Inl CollaboratorError,
       (after_extraction ex_env_k ''/p/k.jpl'' ex_state)
         \<lparr>fs := snd (fs_writeFile ex_env_k (fs (after_extraction ex_env_k ''/p/k.jpl'' ex_state))
                  (manifestFilePath ex_env_k ''/p/k.jpl'')
                  (stamped_text manifest_text_k [(''id'', JStr ''k'')])),
          fs_calls := fs_calls (after_extraction ex_env_k ''/p/k.jpl'' ex_state)
            @ [WriteFile (manifestFilePath ex_env_k ''/p/k.jpl'')
                 (stamped_text manifest_text_k [(''id'', JStr ''k'')])]\<rparr>)"
    by blast
  then have u: "unpackPackage ex_env_k ''/p/k.jpl'' ex_state = (Inr ''/tmp/k'', ex_state_k)"
    by (simp only: ex_k_stamped_text ex_k_written) (simp add: ex_env_k_sel ex_k_paths)
  then have l: "loadPluginFromPackage (Suc 0) ex_env_k ''/p'' ''/p/k.jpl'' ex_state
      = Some (Inr plugin_k, ex_state_k)"
    by (simp only: loadPluginFromPackage.simps prod.case sum.case ex_k_load_dir)
  from again ex_k_hit
  have h: "unpackPackage ex_env_k ''/p/k.jpl'' ex_state_k
      = (Inr (unpackDir ex_env_k ''/p/k.jpl''), ex_state_k)"
    by blast
  from u have f: "fst (unpackPackage ex_env_k ''/p/k.jpl'' ex_state) = Inr ''/tmp/k''"
    by simp
  from first l f ex_k_not_package ex_k_md5' ex_k_read_after_write ex_k_reparses
  have t: "loadPluginFromPackage (Suc 0) ex_env_k ''/p'' ''/p/k.jpl'' ex_state_k
      = Some (Inr plugin_k, ex_state_k)"
    by blast
  have c: "length (filter is_Extract (fs_calls ex_state_k)) = 1"
    by (simp add: ex_state_k_def)
  from ex_k_md5 ex_k_miss u l ex_k_read_after_write ex_k_reparses ex_k_hit h t c
  show ?thesis by (simp add: ex_k_paths)
qed

section \<open>Installation on the example environment\<close>

lemma ex_k_unpack_miss:
  assumes "fs st = ex_files"
  shows "unpackPackage ex_env_k ''/p/k.jpl'' st
     = (Inr ''/tmp/k'',
        st\<lparr>fs := ex_files_k,
           fs_calls := fs_calls st
             @ [Remove ''/tmp/k'', Mkdir ''/tmp/k'', Extract ''/p/k.jpl'' ''/tmp/k'',
                WriteFile ''/tmp/k/manifest.json'' manifest_text_k_stamped]\<rparr>)"
proof -
  have md5: "md5File ex_env_k (fs st) ''/p/k.jpl'' = Some manifest_text_k"
    by (simp add: ex_env_k_sel assms ex_files_def)
  have miss: "\<not> cache_hit ex_env_k ''/p/k.jpl'' manifest_text_k st"
    by (simp add: cache_hit_def ex_k_paths loadManifestToObject_def ex_env_k_sel assms
        ex_files_def)
  have ex: "fst (wiped ex_env_k ''/p/k.jpl'' (fs st))" "fst (remade ex_env_k ''/p/k.jpl'' (fs st))"
    "fst (extracted ex_env_k ''/p/k.jpl'' (fs st))"
    "snd (extracted ex_env_k ''/p/k.jpl'' (fs st))
       = ex_files @ [(''/tmp/k/manifest.json'', manifest_text_k), (''/tmp/k/index.js'', ''run()'')]"
    by (simp_all add: wiped_def remade_def extracted_def ex_k_paths ex_env_k_sel ex_remove_def
        ex_extract_def assms ex_files_def starts_with_def)
  have m: "loadManifestToObject ex_env_k ''/tmp/k/manifest.json''
      (after_extraction ex_env_k ''/p/k.jpl'' st) = JObj [(''id'', JStr ''k'')]"
    by (simp add: loadManifestToObject_def after_extraction_def ex ex_env_k_sel ex_k_parse
        ex_files_def)
  show ?thesis
    unfolding unpackPackage_miss [OF md5 miss] Let_def ex_k_paths
    by (simp add: ex m ex_k_stamped_text)
      (simp add: after_extraction_def ex ex_k_paths ex_env_k_sel ex_files_k_def ex_files_def)
qed

lemma ex_k_unpack_hit:
  assumes "map_of (fs st) ''/plugins/k.jpl'' = Some manifest_text_k"
    and "map_of (fs st) ''/tmp/k/manifest.json'' = Some manifest_text_k_stamped"
  shows "unpackPackage ex_env_k ''/plugins/k.jpl'' st = (Inr ''/tmp/k'', st)"
proof -
  have p: "unpackDir ex_env_k ''/plugins/k.jpl'' = ''/tmp/k''"
    "manifestFilePath ex_env_k ''/plugins/k.jpl'' = ''/tmp/k/manifest.json''"
    by (simp_all add: manifestFilePath_def unpackDir_def ex_env_k_sel ex_filename_def
        ex_basename_def)
  have "md5File ex_env_k (fs st) ''/plugins/k.jpl'' = Some manifest_text_k"
    by (simp add: ex_env_k_sel assms)
  moreover have "cache_hit ex_env_k ''/plugins/k.jpl'' manifest_text_k st"
    by (simp add: cache_hit_def p loadManifestToObject_def ex_env_k_sel assms ex_k_parse)
  ultimately show ?thesis
    by (simp add: unpackPackage_hit p)
qed

lemma ex_k_package_paths:
  "rtrimSlashes ex_env_k ''/p/k.jpl'' = ''/p/k.jpl''"
  "rtrimSlashes ex_env_k ''/plugins/k.jpl'' = ''/plugins/k.jpl''"
  "endsWith (toLowerCase ''/p/k.jpl'') ''.jpl''" "\<not> endsWith (toLowerCase ''/p/k.jpl'') ''.js''"
  "endsWith (toLowerCase ''/plugins/k.jpl'') ''.jpl''"
  "\<not> endsWith (toLowerCase ''/plugins/k.jpl'') ''.js''"
  by (simp_all add: ex_env_k_sel ex_rtrimSlashes_def str_defs)

lemma ex_k_install:
  assumes "fs st = ex_files" and "registry st ''k'' = None"
  shows "\<exists>st'. installPlugin (Suc (Suc 0)) ex_env_k ''/p/k.jpl'' st = Some (Inr plugin_k, st')
     \<and> registry st' = (registry st)(''k'' \<mapsto> plugin_k)
     \<and> fs_calls st' = fs_calls st
          @ [Remove ''/tmp/k'', Mkdir ''/tmp/k'', Extract ''/p/k.jpl'' ''/tmp/k'',
             WriteFile ''/tmp/k/manifest.json'' manifest_text_k_stamped,
             Copy ''/p/k.jpl'' ''/plugins/k.jpl'']"
proof -
  define s1 where "s1 = st\<lparr>fs := ex_files_k,
      fs_calls := fs_calls st
        @ [Remove ''/tmp/k'', Mkdir ''/tmp/k'', Extract ''/p/k.jpl'' ''/tmp/k'',
           WriteFile ''/tmp/k/manifest.json'' manifest_text_k_stamped]\<rparr>"
  define s2 where "s2 = s1\<lparr>fs := ex_files_k @ [(''/plugins/k.jpl'', manifest_text_k)],
      fs_calls := fs_calls s1 @ [Copy ''/p/k.jpl'' ''/plugins/k.jpl'']\<rparr>"
  have f1: "map_of (fs s1) ''/tmp/k/manifest.json'' = Some manifest_text_k_stamped"
    "map_of (fs s1) ''/tmp/k/index.js'' = Some ''run()''"
    and f2: "map_of (fs s2) ''/tmp/k/manifest.json'' = Some manifest_text_k_stamped"
    "map_of (fs s2) ''/tmp/k/index.js'' = Some ''run()''"
    "map_of (fs s2) ''/plugins/k.jpl'' = Some manifest_text_k"
    by (simp_all add: s1_def s2_def ex_files_k_def ex_files_def)
  have l1: "loadPluginFromPath (Suc (Suc 0)) ex_env_k ''/p/k.jpl'' st = Some (Inr plugin_k, s1)"
    using ex_k_unpack_miss [OF assms(1)] ex_k_load_dir_general [OF f1, of 0]
    by (simp add: ex_k_package_paths Let_def s1_def)
  have c: "fs_call (Copy ''/p/k.jpl'' ''/plugins/k.jpl'')
      (fs_copy ex_env_k (fs s1) ''/p/k.jpl'' ''/plugins/k.jpl'') s1 = (Inr (), s2)"
    by (simp add: fs_call_def ex_env_k_sel ex_copy_def s1_def s2_def ex_files_k_def ex_files_def)
  have l2: "loadPluginFromPath (Suc (Suc 0)) ex_env_k ''/plugins/k.jpl'' s2 = Some (Inr plugin_k, s2)"
    using ex_k_unpack_hit [OF f2(3) f2(1)] ex_k_load_dir_general [OF f2(1,2), of 0]
    by (simp add: ex_k_package_paths Let_def)
  have id: "plugin_id plugin_k = ''k''"
    by (simp add: plugin_id_def plugin_k_def new_Plugin_def)
  have r2: "registry s2 = registry st"
    by (simp add: s1_def s2_def registry_def deref_def)
  have dest: "pluginDir ex_env_k @ ''/'' @ plugin_id plugin_k @ ''.jpl'' = ''/plugins/k.jpl''"
    by (simp add: ex_env_k_sel id)
  have "installPlugin (Suc (Suc 0)) ex_env_k ''/p/k.jpl'' st
      = Some (Inr plugin_k, setPluginAt ''k'' plugin_k s2)"
    unfolding installPlugin_def
    by (simp only: l1 option.case prod.case sum.case Let_def dest c l2)
      (simp add: id r2 assms(2))
  moreover have "registry (setPluginAt ''k'' plugin_k s2) = (registry st)(''k'' \<mapsto> plugin_k)"
    by (simp add: registry_setPluginAt r2)
  moreover have "fs_calls (setPluginAt ''k'' plugin_k s2) = fs_calls st
          @ [Remove ''/tmp/k'', Mkdir ''/tmp/k'', Extract ''/p/k.jpl'' ''/tmp/k'',
             WriteFile ''/tmp/k/manifest.json'' manifest_text_k_stamped,
             Copy ''/p/k.jpl'' ''/plugins/k.jpl'']"
    by (simp add: setPluginAt_def s1_def s2_def)
  ultimately show ?thesis by blast
qed

lemma ex_batch_duplicate:
  "loadAndRunPlugins (Suc 0) ex_env (Paths [''/p/a2.js'']) (JObj []) True ex_state1
     = Some (Inr (), ex_state1\<lparr>error_log := error_log ex_state1
               @ [CouldNotLoadPlugin ''/p/a2.js'' DuplicateId]\<rparr>)"
proof -
  have d: "registry ex_state1 (plugin_id plugin_a) = Some (plugin_a\<lparr>devMode := True\<rparr>)"
    by (simp add: ex_plugin_ids ex_state1_facts)
  have "loadCandidate (Suc 0) ex_env (JObj []) True ''/p/a2.js'' ex_state1
      = Some (catch_and_log ''/p/a2.js'' (registerAndRun ex_env (JObj []) True plugin_a ex_state1))"
    using ex_not_excluded(3) ex_load_a2 [OF ex_state1_facts(1)] by (rule loadCandidate_loaded)
  then show ?thesis
    by (simp add: loadAndRunPlugins_def registerAndRun_duplicate [OF d] catch_and_log_def)
qed

theorem registry_keyed_by_exact_id_witness:
  "registry ex_state1 ''a'' = Some (plugin_a\<lparr>devMode := True\<rparr>)
   \<and> loadAndRunPlugins (Suc 0) ex_env (Paths [''/p/a2.js'']) (JObj []) True ex_state1
       = Some (Inr (), ex_state1\<lparr>error_log := error_log ex_state1
                 @ [CouldNotLoadPlugin ''/p/a2.js'' DuplicateId]\<rparr>)
   \<and> registry (ex_state1\<lparr>error_log := error_log ex_state1
                 @ [CouldNotLoadPlugin ''/p/a2.js'' DuplicateId]\<rparr>) ''a''
       = Some (plugin_a\<lparr>devMode := True\<rparr>)
   \<and> (\<exists>st'. installPlugin (Suc (Suc 0)) ex_env_k ''/p/k.jpl'' ex_state1 = Some (Inr plugin_k, st')
          \<and> registry st' ''k'' = Some plugin_k
          \<and> registry st' ''a'' = Some (plugin_a\<lparr>devMode := True\<rparr>))
   \<and> plugin_id plugin_a = ''a''
   \<and> registerAndRun ex_env (JObj []) True plugin_a ex_state1 = (Inl DuplicateId, ex_state1)
   \<and> pluginById ''a'' ex_state1 = Inr (plugin_a\<lparr>devMode := True\<rparr>)"
proof -
  note a = ex_state1_facts(2)
  note batch = registry_keyed_by_exact_id [OF a, of "Suc 0" ex_env "Paths [''/p/a2.js'']"
      "JObj []" True "''/p/a2.js''"]
  note install = registry_keyed_by_exact_id [OF a, of "Suc (Suc 0)" ex_env_k "Paths []"
      "JObj []" True "''/p/k.jpl''"]
  have none: "registry ex_state1 ''k'' = None"
    by (simp add: ex_state1_def ex_state_def initial_state_def registry_def deref_def)
  from ex_k_install [OF ex_state1_facts(1) none]
  obtain st' where i: "installPlugin (Suc (Suc 0)) ex_env_k ''/p/k.jpl'' ex_state1
      = Some (Inr plugin_k, st')"
    and k: "registry st' = (registry ex_state1)(''k'' \<mapsto> plugin_k)"
    by blast
  from install i have "registry st' ''a'' = Some (plugin_a\<lparr>devMode := True\<rparr>)"
    by blast
  with i k have e: "\<exists>st'. installPlugin (Suc (Suc 0)) ex_env_k ''/p/k.jpl'' ex_state1
        = Some (Inr plugin_k, st')
      \<and> registry st' ''k'' = Some plugin_k
      \<and> registry st' ''a'' = Some (plugin_a\<lparr>devMode := True\<rparr>)"
    by auto
  from batch ex_batch_duplicate
  have b: "registry (ex_state1\<lparr>error_log := error_log ex_state1
        @ [CouldNotLoadPlugin ''/p/a2.js'' DuplicateId]\<rparr>) ''a''
      = Some (plugin_a\<lparr>devMode := True\<rparr>)"
    by blast
  from batch ex_plugin_ids(1)
  have r: "registerAndRun ex_env (JObj []) True plugin_a ex_state1 = (Inl DuplicateId, ex_state1)"
    by blast
  from batch have p: "pluginById ''a'' ex_state1 = Inr (plugin_a\<lparr>devMode := True\<rparr>)"
    by blast
  from a ex_batch_duplicate b e ex_plugin_ids(1) r p show ?thesis
    by (intro conjI)
qed

end
